theory Spec2Isabelle
  imports Complex_Main
begin

section \<open>Values\<close>

text \<open>
  The data that \<^verbatim>\<open>devtools.js\<close> handles is what \<^verbatim>\<open>JSON.parse\<close> and the
  browser's cookie and storage readers hand over: plain JavaScript values.

  A JavaScript string is a sequence of UTF-16 code units, and \<^verbatim>\<open>s.length\<close> counts
  code units. A code unit is a number below 65536; nothing below depends on that
  bound. The function \<open>str\<close> turns a literal of this text into the string of its code units.
\<close>

type_synonym jsstring = "nat list"

definition str :: "string \<Rightarrow> jsstring" where
  "str s = map of_char s"

text \<open>
  Iterating over a string (\<^verbatim>\<open>for ... of\<close>, \<^verbatim>\<open>new Set(s)\<close>, the quoting of
  \<^verbatim>\<open>JSON.stringify\<close>) goes by code points: a high surrogate followed by a low
  surrogate is one element of two code units, every other code unit is an element by
  itself.
\<close>

text \<open>
  The high surrogates are the code units from D800 to DBFF, the low surrogates those
  from DC00 to DFFF: the 1024 code units each whose quotient by 1024 is 54 and 55.
\<close>

definition is_high_surrogate :: "nat \<Rightarrow> bool" where
  "is_high_surrogate u = (u div 1024 = 54)"

definition is_low_surrogate :: "nat \<Rightarrow> bool" where
  "is_low_surrogate u = (u div 1024 = 55)"

fun code_points :: "jsstring \<Rightarrow> jsstring list" where
  "code_points [] = []"
| "code_points [u] = [[u]]"
| "code_points (u # v # us) =
     (if is_high_surrogate u \<and> is_low_surrogate v then [u, v] # code_points us
      else [u] # code_points (v # us))"

text \<open>
  A number is kept as the text that \<^verbatim>\<open>Number::toString\<close> gives for it, which is all
  that the program ever observes of a number (it copies numbers and serialises them).
  An object is the list of its own enumerable entries in the order of
  \<^verbatim>\<open>Object.entries\<close>; its prototype is \<^verbatim>\<open>Object.prototype\<close>, and no value is a
  function.
\<close>

datatype js =
    JUndefined
  | JNull
  | JBool bool
  | JNum string
  | JStr jsstring
  | JArr "js list"
  | JObj "(jsstring \<times> js) list"

text \<open>What a builtin or a statement of the script raises.\<close>

datatype exn = SyntaxError | TypeError | RangeError | InvalidStateError

section \<open>Regular expressions\<close>

text \<open>
  The patterns of the source use literals, character classes with ranges, sequence,
  alternation, the quantifiers \<^verbatim>\<open>?\<close>, \<^verbatim>\<open>+\<close>, \<^verbatim>\<open>{n}\<close>, \<^verbatim>\<open>{n,}\<close>, \<^verbatim>\<open>{n,m}\<close>, the flag
  \<^verbatim>\<open>i\<close>, and either both anchors \<^verbatim>\<open>^...$\<close> or none. None has the flags \<^verbatim>\<open>g\<close> or
  \<^verbatim>\<open>y\<close>, so \<^verbatim>\<open>test\<close> keeps no state between calls, and none has a back reference or
  a look-around, so \<^verbatim>\<open>test\<close> answers whether some match exists. None has the
  flag \<^verbatim>\<open>u\<close>, so a pattern matches code unit by code unit.

  \<^term>\<open>rmatch ci r s\<close> lists what can remain of \<open>s\<close> after \<open>r\<close> has matched a prefix of it.
\<close>

datatype rx =
    Eps
  | Cls "(char \<times> char) list"
  | Seq rx rx
  | Alt rx rx
  | Rep nat "nat option" rx

definition in_range :: "nat \<Rightarrow> char \<times> char \<Rightarrow> bool" where
  "in_range u r = (of_char (fst r) \<le> u \<and> u \<le> of_char (snd r))"

definition is_upper :: "nat \<Rightarrow> bool" where
  "is_upper u = in_range u (CHR ''A'', CHR ''Z'')"

definition is_lower :: "nat \<Rightarrow> bool" where
  "is_lower u = in_range u (CHR ''a'', CHR ''z'')"

definition to_upper :: "nat \<Rightarrow> nat" where
  "to_upper u = (if is_lower u then u - 32 else u)"

definition to_lower :: "nat \<Rightarrow> nat" where
  "to_lower u = (if is_upper u then u + 32 else u)"

text \<open>
  Under the flag \<^verbatim>\<open>i\<close> a code unit matches a class when its canonical form is the
  canonical form of a member. The classes of the source hold ASCII characters only, and
  without the flag \<^verbatim>\<open>u\<close> no code unit outside ASCII has an ASCII canonical form, so the
  members that can share a canonical form with \<open>c\<close> are \<open>c\<close> itself and its ASCII case
  variants.
\<close>

definition in_class :: "bool \<Rightarrow> (char \<times> char) list \<Rightarrow> nat \<Rightarrow> bool" where
  "in_class ci rs c =
     (list_ex (in_range c) rs \<or>
      (ci \<and> (list_ex (in_range (to_upper c)) rs \<or> list_ex (in_range (to_lower c)) rs)))"

fun rep ::
  "(jsstring \<Rightarrow> jsstring list) \<Rightarrow> nat \<Rightarrow> nat \<Rightarrow> jsstring \<Rightarrow> jsstring list" where
  "rep m lo 0 s = (if lo = 0 then [s] else [])"
| "rep m lo (Suc hi) s =
     (if lo = 0 then [s] else []) @ concat (map (rep m (lo - 1) hi) (m s))"

lemma rep_cong [fundef_cong]:
  "(\<And>t. m t = m' t) \<Longrightarrow> lo = lo' \<Longrightarrow> hi = hi' \<Longrightarrow> s = s' \<Longrightarrow> rep m lo hi s = rep m' lo' hi' s'"
proof -
  assume "\<And>t. m t = m' t"
  then have "m = m'" by (simp add: fun_eq_iff)
  moreover assume "lo = lo'" "hi = hi'" "s = s'"
  ultimately show ?thesis by simp
qed

text \<open>
  An iteration of a quantifier that matches the empty string is never taken a second
  time, so an unbounded quantifier iterates at most once per remaining character.
\<close>

fun rmatch :: "bool \<Rightarrow> rx \<Rightarrow> jsstring \<Rightarrow> jsstring list" where
  "rmatch ci Eps s = [s]"
| "rmatch ci (Cls rs) s =
     (case s of [] \<Rightarrow> [] | c # cs \<Rightarrow> if in_class ci rs c then [cs] else [])"
| "rmatch ci (Seq r1 r2) s = concat (map (rmatch ci r2) (rmatch ci r1 s))"
| "rmatch ci (Alt r1 r2) s = rmatch ci r1 s @ rmatch ci r2 s"
| "rmatch ci (Rep lo hi r) s =
     rep (rmatch ci r) lo (case hi of Some h \<Rightarrow> h | None \<Rightarrow> max lo (length s)) s"

datatype regexp = RegExp (anchored: bool) (ignoreCase: bool) (body: rx)

primrec tails :: "jsstring \<Rightarrow> jsstring list" where
  "tails [] = [[]]"
| "tails (c # cs) = (c # cs) # tails cs"

definition test :: "regexp \<Rightarrow> jsstring \<Rightarrow> bool" where
  "test p s =
     (if anchored p then [] \<in> set (rmatch (ignoreCase p) (body p) s)
      else list_ex (\<lambda>t. rmatch (ignoreCase p) (body p) t \<noteq> []) (tails s))"

subsection \<open>Writing patterns\<close>

primrec lit :: "string \<Rightarrow> rx" where
  "lit [] = Eps"
| "lit (c # cs) = Seq (Cls [(c, c)]) (lit cs)"

definition opt :: "rx \<Rightarrow> rx" where
  "opt r = Rep 0 (Some 1) r"

definition one_or_more :: "rx \<Rightarrow> rx" where
  "one_or_more r = Rep 1 None r"

definition exactly :: "nat \<Rightarrow> rx \<Rightarrow> rx" where
  "exactly n r = Rep n (Some n) r"

definition at_least :: "nat \<Rightarrow> rx \<Rightarrow> rx" where
  "at_least n r = Rep n None r"

definition between :: "nat \<Rightarrow> nat \<Rightarrow> rx \<Rightarrow> rx" where
  "between n m r = Rep n (Some m) r"

primrec seqs :: "rx list \<Rightarrow> rx" where
  "seqs [] = Eps"
| "seqs (r # rs) = Seq r (seqs rs)"

definition upper_case :: "char \<times> char" where "upper_case = (CHR ''A'', CHR ''Z'')"
definition lower_case :: "char \<times> char" where "lower_case = (CHR ''a'', CHR ''z'')"
definition digits :: "char \<times> char" where "digits = (CHR ''0'', CHR ''9'')"
definition single :: "char \<Rightarrow> char \<times> char" where "single c = (c, c)"


section \<open>Settings\<close>

text \<open>
  The script keeps one mutable \<^verbatim>\<open>settings\<close> object, and every function reads the
  fields it needs from it at the moment it runs. Here each function takes the settings
  it reads as an argument.
\<close>

record settings =
  logLimit :: int
  queryLimit :: int
  stringSizeLimit :: int
  maxLogSize :: int
  showRequestHeaders :: bool
  showResponseHeaders :: bool
  sensitiveDataMode :: jsstring
  screenshotPath :: jsstring
  serverHost :: jsstring
  serverPort :: int

definition default_settings :: settings where
  "default_settings =
     \<lparr> logLimit = 50, queryLimit = 30000, stringSizeLimit = 500, maxLogSize = 20000,
       showRequestHeaders = False, showResponseHeaders = False,
       sensitiveDataMode = str ''hide-all'', screenshotPath = [],
       serverHost = str ''localhost'', serverPort = 3025 \<rparr>"

section \<open>Sensitive keys and values\<close>

definition keyword :: "string \<Rightarrow> regexp" where
  "keyword w = RegExp False True (lit w)"

text \<open>\<^verbatim>\<open>/a[-_]?b/i\<close>\<close>

definition keyword2 :: "string \<Rightarrow> string \<Rightarrow> regexp" where
  "keyword2 a b = RegExp False True (seqs [lit a, opt (Cls [single CHR ''-'', single CHR ''_'']), lit b])"

definition SENSITIVE_KEY_PATTERNS :: "regexp list" where
  "SENSITIVE_KEY_PATTERNS =
     [keyword ''auth'', keyword ''token'', keyword ''jwt'', keyword ''session'', keyword2 ''api'' ''key'',
      keyword ''secret'', keyword ''password'', keyword ''pwd'', keyword ''pass'', keyword ''credential'',
      keyword ''oauth'', keyword2 ''refresh'' ''token'', keyword2 ''access'' ''token'',
      keyword2 ''private'' ''key'',
      keyword ''ssn'', keyword2 ''social'' ''security'', keyword ''dob'', keyword ''birth'',
      keyword ''phone'', keyword ''address'', keyword ''zip'', keyword ''postal'', keyword ''license'',
      keyword2 ''credit'' ''card'', keyword2 ''card'' ''number'', keyword ''cvv'', keyword ''ccv'',
      keyword ''bank'', keyword ''account'', keyword ''payment'', keyword ''tax'', keyword ''salary'',
      keyword ''income'',
      keyword ''medical'', keyword ''insurance'', keyword ''diagnos'',
      keyword ''private'', keyword ''confidential'', keyword ''secure'', keyword ''key'']"

definition base64url :: "(char \<times> char) list" where
  "base64url = [upper_case, lower_case, digits, single CHR ''_'', single CHR ''-'']"

definition alnum :: "(char \<times> char) list" where
  "alnum = [upper_case, lower_case, digits]"

definition dash_or_underscore :: rx where
  "dash_or_underscore = Cls [single CHR ''-'', single CHR ''_'']"

definition hex_lower :: "(char \<times> char) list" where
  "hex_lower = [digits, (CHR ''a'', CHR ''f'')]"

text \<open>\<^verbatim>\<open>/^ey[A-Za-z0-9_-]+\.[A-Za-z0-9_-]+\.[A-Za-z0-9_-]+$/\<close>\<close>

definition jwt_pattern :: regexp where
  "jwt_pattern = RegExp True False
     (seqs [lit ''ey'', one_or_more (Cls base64url), lit ''.'', one_or_more (Cls base64url), lit ''.'',
            one_or_more (Cls base64url)])"

text \<open>\<^verbatim>\<open>/^[A-Za-z0-9_-]{16,128}$/\<close>\<close>

definition generic_api_key_pattern :: regexp where
  "generic_api_key_pattern = RegExp True False (between 16 128 (Cls base64url))"

text \<open>\<^verbatim>\<open>/^AKIA[0-9A-Z]{16}$/\<close>\<close>

definition aws_access_key_pattern :: regexp where
  "aws_access_key_pattern = RegExp True False
     (seqs [lit ''AKIA'', exactly 16 (Cls [digits, upper_case])])"

text \<open>\<^verbatim>\<open>/^[A-Za-z0-9/+=]{40}$/\<close>\<close>

definition aws_secret_key_pattern :: regexp where
  "aws_secret_key_pattern = RegExp True False
     (exactly 40 (Cls [upper_case, lower_case, digits, single CHR ''/'', single CHR ''+'', single CHR ''='']))"

text \<open>\<^verbatim>\<open>/^sk-[A-Za-z0-9]{32,}$/\<close>\<close>

definition popular_api_key_pattern :: regexp where
  "popular_api_key_pattern = RegExp True False (seqs [lit ''sk-'', at_least 32 (Cls alnum)])"

text \<open>\<^verbatim>\<open>/^(sk|pk)_(test|live)_[A-Za-z0-9]{24,}$/\<close>\<close>

definition stripe_api_key_pattern :: regexp where
  "stripe_api_key_pattern = RegExp True False
     (seqs [Alt (lit ''sk'') (lit ''pk''), lit ''_'', Alt (lit ''test'') (lit ''live''),
            lit ''_'', at_least 24 (Cls alnum)])"

text \<open>\<^verbatim>\<open>/^AIza[0-9A-Za-z-_]{35}$/\<close>\<close>

definition google_api_key_pattern :: regexp where
  "google_api_key_pattern = RegExp True False
     (seqs [lit ''AIza'',
            exactly 35 (Cls [digits, upper_case, lower_case, single CHR ''-'', single CHR ''_''])])"

text \<open>\<^verbatim>\<open>/^gh[pousr]_[A-Za-z0-9_]{36,255}$/\<close>\<close>

definition github_token_pattern :: regexp where
  "github_token_pattern = RegExp True False
     (seqs [lit ''gh'',
            Cls [single CHR ''p'', single CHR ''o'', single CHR ''u'', single CHR ''s'', single CHR ''r''],
            lit ''_'', between 36 255 (Cls [upper_case, lower_case, digits, single CHR ''_''])])"

text \<open>\<^verbatim>\<open>/^[A-Za-z0-9._-]{32,}$/\<close>\<close>

definition general_key_pattern :: regexp where
  "general_key_pattern = RegExp True False
     (at_least 32 (Cls [upper_case, lower_case, digits, single CHR ''.'', single CHR ''_'', single CHR ''-'']))"

text \<open>\<^verbatim>\<open>/^[A-Za-z0-9]{8,}[-_][A-Za-z0-9]{4,}[-_][A-Za-z0-9]{4,}[-_][A-Za-z0-9]{4,}[-_][A-Za-z0-9]{12,}$/\<close>\<close>

definition segmented_key_pattern :: regexp where
  "segmented_key_pattern = RegExp True False
     (seqs [at_least 8 (Cls alnum), dash_or_underscore, at_least 4 (Cls alnum),
            dash_or_underscore, at_least 4 (Cls alnum), dash_or_underscore,
            at_least 4 (Cls alnum), dash_or_underscore, at_least 12 (Cls alnum)])"

text \<open>\<^verbatim>\<open>/^[0-9a-f]{8}-[0-9a-f]{4}-[0-9a-f]{4}-[0-9a-f]{4}-[0-9a-f]{12}$/i\<close>\<close>

definition uuid_pattern :: regexp where
  "uuid_pattern = RegExp True True
     (seqs [exactly 8 (Cls hex_lower), lit ''-'', exactly 4 (Cls hex_lower), lit ''-'',
            exactly 4 (Cls hex_lower), lit ''-'', exactly 4 (Cls hex_lower), lit ''-'',
            exactly 12 (Cls hex_lower)])"

text \<open>\<^verbatim>\<open>/^bearer [A-Za-z0-9._-]+$/i\<close>\<close>

definition bearer_pattern :: regexp where
  "bearer_pattern = RegExp True True
     (seqs [lit ''bearer '',
            one_or_more (Cls [upper_case, lower_case, digits, single CHR ''.'', single CHR ''_'', single CHR ''-''])])"

text \<open>\<^verbatim>\<open>/^(?:4[0-9]{12}(?:[0-9]{3})?|5[1-5][0-9]{14}|3[47][0-9]{13}|6(?:011|5[0-9]{2})[0-9]{12})$/\<close>\<close>

definition credit_card_pattern :: regexp where
  "credit_card_pattern = RegExp True False
     (Alt (seqs [lit ''4'', exactly 12 (Cls [digits]), opt (exactly 3 (Cls [digits]))])
     (Alt (seqs [lit ''5'', Cls [(CHR ''1'', CHR ''5'')], exactly 14 (Cls [digits])])
     (Alt (seqs [lit ''3'', Cls [single CHR ''4'', single CHR ''7''], exactly 13 (Cls [digits])])
          (seqs [lit ''6'',
                 Alt (lit ''011'') (seqs [lit ''5'', exactly 2 (Cls [digits])]),
                 exactly 12 (Cls [digits])]))))"

text \<open>\<^verbatim>\<open>/^\d{3}-\d{2}-\d{4}$/\<close>\<close>

definition ssn_pattern :: regexp where
  "ssn_pattern = RegExp True False
     (seqs [exactly 3 (Cls [digits]), lit ''-'', exactly 2 (Cls [digits]), lit ''-'',
            exactly 4 (Cls [digits])])"

text \<open>\<^verbatim>\<open>/^[a-zA-Z0-9._%+-]+@[a-zA-Z0-9.-]+\.[a-zA-Z]{2,}$/\<close>\<close>

definition email_pattern :: regexp where
  "email_pattern = RegExp True False
     (seqs [one_or_more (Cls [lower_case, upper_case, digits, single CHR ''.'', single CHR ''_'', single CHR ''%'',
                       single CHR ''+'', single CHR ''-'']),
            lit ''@'',
            one_or_more (Cls [lower_case, upper_case, digits, single CHR ''.'', single CHR ''-'']),
            lit ''.'', at_least 2 (Cls [lower_case, upper_case])])"

definition SENSITIVE_VALUE_PATTERNS :: "regexp list" where
  "SENSITIVE_VALUE_PATTERNS =
     [jwt_pattern,
      generic_api_key_pattern, aws_access_key_pattern, aws_secret_key_pattern,
      popular_api_key_pattern, stripe_api_key_pattern, google_api_key_pattern,
      github_token_pattern,
      general_key_pattern, segmented_key_pattern,
      uuid_pattern, bearer_pattern,
      credit_card_pattern,
      ssn_pattern,
      email_pattern]"

subsection \<open>Entropy\<close>

text \<open>
  JavaScript numbers are doubles. The entropy is computed here over the reals, and the
  two things a division of doubles can give besides a finite number are kept: dividing
  zero by zero gives \<^verbatim>\<open>NaN\<close>, dividing anything else by zero an infinity. For a string
  of one distinct character every step below is exact in doubles as well: the quotient
  of the count and the length is 1 or one half, \<^verbatim>\<open>Math.log2\<close> of these is 0 and -1,
  and \<^verbatim>\<open>Math.log2(1)\<close> for the one distinct character is 0.

  The frequencies are counted in a \<^verbatim>\<open>Map\<close> whose keys are the code points of the
  string, each as a string of one or two code units, and the distinct characters in a
  \<^verbatim>\<open>Set\<close> of the same; the length is \<^verbatim>\<open>str.length\<close>, in code units.
\<close>

datatype jsnum = NaN | PosInf | NegInf | Fin real

definition js_div :: "real \<Rightarrow> real \<Rightarrow> jsnum" where
  "js_div x y =
     (if y = 0 then (if x = 0 then NaN else if 0 < x then PosInf else NegInf)
      else Fin (x / y))"

text \<open>\<^verbatim>\<open>x > c\<close> for a finite \<open>c\<close>: every comparison with \<^verbatim>\<open>NaN\<close> is false.\<close>

fun js_gt :: "jsnum \<Rightarrow> real \<Rightarrow> bool" where
  "js_gt NaN c = False"
| "js_gt PosInf c = True"
| "js_gt NegInf c = False"
| "js_gt (Fin x) c = (c < x)"

text \<open>
  A \<^verbatim>\<open>Map\<close> keeps its keys in the order of their first insertion; \<^verbatim>\<open>set\<close> on a
  present key changes the value in place.
\<close>

fun map_get :: "('k \<times> nat) list \<Rightarrow> 'k \<Rightarrow> nat option" where
  "map_get [] k = None"
| "map_get ((k', v) # m) k = (if k' = k then Some v else map_get m k)"

fun map_set :: "('k \<times> nat) list \<Rightarrow> 'k \<Rightarrow> nat \<Rightarrow> ('k \<times> nat) list" where
  "map_set [] k v = [(k, v)]"
| "map_set ((k', v') # m) k v = (if k' = k then (k, v) # m else (k', v') # map_set m k v)"

definition frequencies :: "jsstring \<Rightarrow> (jsstring \<times> nat) list" where
  "frequencies s =
     fold (\<lambda>c freq. map_set freq c ((case map_get freq c of None \<Rightarrow> 0 | Some n \<Rightarrow> n) + 1))
          (code_points s) []"

definition calculateNormalizedEntropy :: "jsstring \<Rightarrow> jsnum" where
  "calculateNormalizedEntropy s =
     (let freq = frequencies s;
          len = length s;
          entropy = fold (\<lambda>count entropy.
                            let p = real count / real len in entropy - p * log 2 p)
                         (map snd freq) 0;
          uniqueChars = length (remdups (code_points s))
      in if uniqueChars = 0 then Fin 0
         else let maxEntropy = log 2 (real uniqueChars) in js_div entropy maxEntropy)"

subsection \<open>The classifiers\<close>

definition isSensitiveValue :: "js \<Rightarrow> bool" where
  "isSensitiveValue v =
     (case v of
        JStr s \<Rightarrow>
          if length s < 8 then False
          else if list_ex (\<lambda>pattern. test pattern s) SENSITIVE_VALUE_PATTERNS then True
          else if 16 < length s \<and> js_gt (calculateNormalizedEntropy s) 0.65 then True
          else False
      | _ \<Rightarrow> False)"

definition isSensitiveKey :: "jsstring \<Rightarrow> bool" where
  "isSensitiveKey key = list_ex (\<lambda>pattern. test pattern key) SENSITIVE_KEY_PATTERNS"

definition REDACTED :: jsstring where
  "REDACTED = str ''[SENSITIVE DATA REDACTED]''"


subsection \<open>Conversions that the engine makes\<close>

fun join :: "'a list \<Rightarrow> 'a list list \<Rightarrow> 'a list" where
  "join sep [] = []"
| "join sep [x] = x"
| "join sep (x # y # ys) = x @ sep @ join sep (y # ys)"

definition digit_char :: "nat \<Rightarrow> char" where
  "digit_char d = char_of (48 + d)"

function decimal :: "nat \<Rightarrow> string" where
  "decimal n = (if n < 10 then [digit_char n] else decimal (n div 10) @ [digit_char (n mod 10)])"
  by pat_completeness auto
termination
  by (relation "measure id") auto

text \<open>The results of a list of steps that are taken in order until one raises.\<close>

fun collect :: "(exn + 'a) list \<Rightarrow> exn + 'a list" where
  "collect [] = Inr []"
| "collect (x # xs) =
     (case x of
        Inl e \<Rightarrow> Inl e
      | Inr v \<Rightarrow> (case collect xs of Inl e \<Rightarrow> Inl e | Inr vs \<Rightarrow> Inr (v # vs)))"

definition has_own_property :: "(jsstring \<times> js) list \<Rightarrow> jsstring \<Rightarrow> bool" where
  "has_own_property es k = list_ex (\<lambda>e. fst e = k) es"

text \<open>
  \<^verbatim>\<open>ToString\<close>, which \<^verbatim>\<open>RegExp.prototype.test\<close> and a template literal apply to a
  value. An array is its elements joined by commas, with nothing for \<^verbatim>\<open>null\<close> and
  \<^verbatim>\<open>undefined\<close>. An object is converted by its method \<^verbatim>\<open>toString\<close>: the inherited
  one gives \<^verbatim>\<open>[object Object]\<close>, while an own property of that name holds no function
  here, and then neither it nor \<^verbatim>\<open>valueOf\<close> yields a primitive value and the conversion
  raises a \<^verbatim>\<open>TypeError\<close>.
\<close>

fun to_string :: "js \<Rightarrow> exn + jsstring" where
  "to_string JUndefined = Inr (str ''undefined'')"
| "to_string JNull = Inr (str ''null'')"
| "to_string (JBool b) = Inr (if b then str ''true'' else str ''false'')"
| "to_string (JNum t) = Inr (str t)"
| "to_string (JStr s) = Inr s"
| "to_string (JArr xs) =
     (case collect (map (\<lambda>x. if x = JUndefined \<or> x = JNull then Inr [] else to_string x) xs) of
        Inl e \<Rightarrow> Inl e
      | Inr parts \<Rightarrow> Inr (join (str '','') parts))"
| "to_string (JObj es) =
     (if has_own_property es (str ''toString'') then Inl TypeError
      else Inr (str ''[object Object]''))"

text \<open>The own enumerable entries of a value that is an object: an array has its indices as keys.\<close>

definition index_entries :: "js list \<Rightarrow> (jsstring \<times> js) list" where
  "index_entries xs = zip (map (\<lambda>i. str (decimal i)) [0..<length xs]) xs"

fun get_property :: "(jsstring \<times> js) list \<Rightarrow> jsstring \<Rightarrow> js" where
  "get_property [] k = JUndefined"
| "get_property ((k', v) # es) k = (if k' = k then v else get_property es k)"

fun set_property :: "(jsstring \<times> js) list \<Rightarrow> jsstring \<Rightarrow> js \<Rightarrow> (jsstring \<times> js) list" where
  "set_property [] k v = [(k, v)]"
| "set_property ((k', v') # es) k v =
     (if k' = k then (k, v) # es else (k', v') # set_property es k v)"

text \<open>
  An assignment \<^verbatim>\<open>result[key] = v\<close> to a fresh object makes an own entry, except for
  the key \<^verbatim>\<open>__proto__\<close>: that assignment reaches the setter of
  \<^verbatim>\<open>Object.prototype\<close>, which changes the prototype of \<^verbatim>\<open>result\<close> or does nothing, and
  \<^verbatim>\<open>result\<close> gets no entry. So an object that is built entry by entry from the entries
  of another has all of them but the one with that key.
\<close>

definition PROTO :: jsstring where
  "PROTO = str ''__proto__''"

definition assignable :: "(jsstring \<times> 'a) list \<Rightarrow> (jsstring \<times> 'a) list" where
  "assignable es = filter (\<lambda>e. fst e \<noteq> PROTO) es"

subsection \<open>Cookies and storage\<close>

definition must_redact :: "settings \<Rightarrow> jsstring \<Rightarrow> js \<Rightarrow> bool" where
  "must_redact st key v =
     (sensitiveDataMode st = str ''hide-all'' \<or>
      (sensitiveDataMode st = str ''hide-sensitive'' \<and> (isSensitiveKey key \<or> isSensitiveValue v)))"

text \<open>
  The same condition for a cookie, whose \<^verbatim>\<open>name\<close> need not be a string:
  \<^verbatim>\<open>isSensitiveKey\<close> hands it to \<^verbatim>\<open>test\<close>, which converts it first, and that may
  raise. The conversion is made only when the mode is \<^verbatim>\<open>hide-sensitive\<close>.
\<close>

definition must_redact_cookie :: "settings \<Rightarrow> js \<Rightarrow> js \<Rightarrow> exn + bool" where
  "must_redact_cookie st name v =
     (if sensitiveDataMode st = str ''hide-all'' then Inr True
      else if sensitiveDataMode st = str ''hide-sensitive'' then
        (case to_string name of
           Inl e \<Rightarrow> Inl e
         | Inr key \<Rightarrow> Inr (isSensitiveKey key \<or> isSensitiveValue v))
      else Inr False)"

definition filterSensitiveCookie :: "settings \<Rightarrow> js \<Rightarrow> exn + js" where
  "filterSensitiveCookie st cookie =
     (case cookie of
        JObj es \<Rightarrow>
          (case must_redact_cookie st (get_property es (str ''name''))
                  (get_property es (str ''value'')) of
             Inl e \<Rightarrow> Inl e
           | Inr redact \<Rightarrow>
               Inr (if redact then JObj (set_property es (str ''value'') (JStr REDACTED))
                    else cookie))
      | JArr xs \<Rightarrow>
          (case must_redact_cookie st JUndefined JUndefined of
             Inl e \<Rightarrow> Inl e
           | Inr redact \<Rightarrow>
               Inr (if redact
                    then JObj (set_property (index_entries xs) (str ''value'') (JStr REDACTED))
                    else cookie))
      | _ \<Rightarrow> Inr cookie)"

definition filterSensitiveCookies :: "settings \<Rightarrow> js \<Rightarrow> exn + js" where
  "filterSensitiveCookies st cookies =
     (case cookies of
        JArr xs \<Rightarrow>
          (case collect (map (filterSensitiveCookie st) xs) of
             Inl e \<Rightarrow> Inl e
           | Inr ys \<Rightarrow> Inr (JArr ys))
      | _ \<Rightarrow> Inr (JArr []))"

definition redact_entry :: "settings \<Rightarrow> jsstring \<times> js \<Rightarrow> jsstring \<times> js" where
  "redact_entry st e =
     (if must_redact st (fst e) (snd e) then (fst e, JStr REDACTED) else e)"

definition filterSensitiveStorage :: "settings \<Rightarrow> js \<Rightarrow> js" where
  "filterSensitiveStorage st storage =
     (case storage of
        JObj es \<Rightarrow> JObj (assignable (map (redact_entry st) es))
      | JArr xs \<Rightarrow> JObj (assignable (map (redact_entry st) (index_entries xs)))
      | _ \<Rightarrow> JObj [])"

section \<open>Bounding payloads\<close>

subsection \<open>Truncating strings\<close>

text \<open>
  \<^verbatim>\<open>truncateStringsInData\<close> looks at its argument through three tests only:
  \<^verbatim>\<open>typeof data === "string"\<close>, \<^verbatim>\<open>Array.isArray(data)\<close> and
  \<^verbatim>\<open>typeof data === "object" && data !== null\<close>. It never compares two objects for
  identity. What the tests show of a value is a \<open>view\<close>: a string, the elements of an
  array, the entries of an object, or a value that is neither and is returned as it is.
  The function takes the way of viewing as an argument, so that it runs on the values of
  type \<^typ>\<open>js\<close>, which are finite trees, and equally on object graphs in which an
  object is reached from itself.

  The result for an object is built by \<^verbatim>\<open>result[key] = ...\<close>, so it has no entry for
  the key \<^verbatim>\<open>__proto__\<close>. The argument \<^verbatim>\<open>path\<close> is used for logging only and is left
  out. The \<^verbatim>\<open>catch\<close> around the recursive call for an entry is not reached: on this
  data no step of the function raises.
\<close>

datatype scalar = Undefined | Null | Bool bool | Num string

fun js_of_scalar :: "scalar \<Rightarrow> js" where
  "js_of_scalar Undefined = JUndefined"
| "js_of_scalar Null = JNull"
| "js_of_scalar (Bool b) = JBool b"
| "js_of_scalar (Num t) = JNum t"

datatype 'a view =
    VString jsstring
  | VArray "'a list"
  | VObject "(jsstring \<times> 'a) list"
  | VOther scalar

fun view_js :: "js \<Rightarrow> js view" where
  "view_js (JStr s) = VString s"
| "view_js (JArr xs) = VArray xs"
| "view_js (JObj es) = VObject es"
| "view_js JUndefined = VOther Undefined"
| "view_js JNull = VOther Null"
| "view_js (JBool b) = VOther (Bool b)"
| "view_js (JNum t) = VOther (Num t)"

definition MAX_DEPTH_EXCEEDED :: jsstring where
  "MAX_DEPTH_EXCEEDED = str ''[MAX_DEPTH_EXCEEDED]''"

definition TRUNCATED :: jsstring where
  "TRUNCATED = str ''... (truncated)''"

text \<open>\<^verbatim>\<open>s.substring(0, n)\<close>: a negative \<open>n\<close> counts as 0, one beyond the end as the length.\<close>

definition substring0 :: "jsstring \<Rightarrow> int \<Rightarrow> jsstring" where
  "substring0 s n = take (nat n) s"

function truncateStringsInData :: "('a \<Rightarrow> 'a view) \<Rightarrow> 'a \<Rightarrow> int \<Rightarrow> nat \<Rightarrow> js" where
  "truncateStringsInData view data maxLength depth =
     (if depth > 100 then JStr MAX_DEPTH_EXCEEDED
      else case view data of
        VString s \<Rightarrow>
          if int (length s) > maxLength then JStr (substring0 s maxLength @ TRUNCATED)
          else JStr s
      | VArray items \<Rightarrow>
          JArr (map (\<lambda>item. truncateStringsInData view item maxLength (depth + 1)) items)
      | VObject entries \<Rightarrow>
          JObj (assignable
                  (map (\<lambda>e. (fst e, truncateStringsInData view (snd e) maxLength (depth + 1)))
                       entries))
      | VOther v \<Rightarrow> js_of_scalar v)"
  by pat_completeness auto
termination
  by (relation "measure (\<lambda>(view, data, maxLength, depth). 101 - depth)") auto

declare truncateStringsInData.simps [simp del]

subsection \<open>Serialising\<close>

definition hex_digit :: "nat \<Rightarrow> nat" where
  "hex_digit d = (if d < 10 then 48 + d else 87 + d)"

text \<open>\<^verbatim>\<open>\uXXXX\<close>, with the digits in lower case.\<close>

definition BACKSLASH :: nat where
  "BACKSLASH = 0x5C"

definition unicode_escape :: "nat \<Rightarrow> jsstring" where
  "unicode_escape u =
     BACKSLASH # str ''u'' @ [hex_digit (u div 4096 mod 16), hex_digit (u div 256 mod 16),
                              hex_digit (u div 16 mod 16), hex_digit (u mod 16)]"

text \<open>
  \<^verbatim>\<open>QuoteJSONString\<close> goes through the code points of the string. Those with a short
  escape are written with it; the other control characters and the surrogates that are
  not part of a pair are written as \<^verbatim>\<open>\uXXXX\<close>; every other code point is written as it
  is.
\<close>

definition escape_unit :: "nat \<Rightarrow> jsstring" where
  "escape_unit u =
     (if u = 0x22 then [BACKSLASH, 0x22]
      else if u = BACKSLASH then [BACKSLASH, BACKSLASH]
      else if u = 0x08 then BACKSLASH # str ''b''
      else if u = 0x0C then BACKSLASH # str ''f''
      else if u = 0x0A then BACKSLASH # str ''n''
      else if u = 0x0D then BACKSLASH # str ''r''
      else if u = 0x09 then BACKSLASH # str ''t''
      else if u < 0x20 \<or> is_high_surrogate u \<or> is_low_surrogate u then unicode_escape u
      else [u])"

definition escape :: "jsstring \<Rightarrow> jsstring" where
  "escape c = (case c of [u] \<Rightarrow> escape_unit u | _ \<Rightarrow> c)"

definition quote :: "jsstring \<Rightarrow> jsstring" where
  "quote s = [0x22] @ concat (map escape (code_points s)) @ [0x22]"

text \<open>
  \<^verbatim>\<open>SerializeJSONProperty\<close>: inside an array \<^verbatim>\<open>undefined\<close> is written \<^verbatim>\<open>null\<close>, and an
  entry of an object whose value is \<^verbatim>\<open>undefined\<close> is left out. A number that is not
  finite is written \<^verbatim>\<open>null\<close>. No value here has a method \<^verbatim>\<open>toJSON\<close>.
\<close>

fun serialize :: "js \<Rightarrow> jsstring" where
  "serialize JUndefined = str ''null''"
| "serialize JNull = str ''null''"
| "serialize (JBool b) = (if b then str ''true'' else str ''false'')"
| "serialize (JNum t) =
     (if t = ''NaN'' \<or> t = ''Infinity'' \<or> t = ''-Infinity'' then str ''null'' else str t)"
| "serialize (JStr s) = quote s"
| "serialize (JArr xs) = str ''['' @ join (str '','') (map serialize xs) @ str '']''"
| "serialize (JObj es) =
     str ''{'' @ join (str '','') (map (\<lambda>e. quote (fst e) @ str '':'' @ serialize (snd e))
                                     (filter (\<lambda>e. snd e \<noteq> JUndefined) es)) @ str ''}''"

text \<open>\<^verbatim>\<open>JSON.stringify(v)\<close> is \<^verbatim>\<open>undefined\<close>, not a string, when \<open>v\<close> is \<^verbatim>\<open>undefined\<close>.\<close>

definition JSON_stringify :: "js \<Rightarrow> jsstring option" where
  "JSON_stringify v = (if v = JUndefined then None else Some (serialize v))"

text \<open>Reading \<^verbatim>\<open>.length\<close> of \<^verbatim>\<open>undefined\<close> raises a \<^verbatim>\<open>TypeError\<close>.\<close>

definition calculateObjectSize :: "js \<Rightarrow> exn + nat" where
  "calculateObjectSize obj =
     (case JSON_stringify obj of None \<Rightarrow> Inl TypeError | Some t \<Rightarrow> Inr (length t))"

subsection \<open>Bounding an array\<close>

text \<open>
  The loop of \<^verbatim>\<open>processArrayWithSizeLimit\<close>, with the items still to visit, the running
  \<^verbatim>\<open>currentSize\<close> and the \<^verbatim>\<open>result\<close> so far. \<^verbatim>\<open>processFunc\<close> is any function of the
  caller and may raise.
\<close>

fun processArrayLoop ::
  "int \<Rightarrow> ('a \<Rightarrow> exn + js) \<Rightarrow> 'a list \<Rightarrow> nat \<Rightarrow> js list \<Rightarrow> exn + js list" where
  "processArrayLoop maxTotalSize processFunc [] currentSize result = Inr result"
| "processArrayLoop maxTotalSize processFunc (item # rest) currentSize result =
     (case processFunc item of
        Inl e \<Rightarrow> Inl e
      | Inr processedItem \<Rightarrow>
          (case calculateObjectSize processedItem of
             Inl e \<Rightarrow> Inl e
           | Inr itemSize \<Rightarrow>
               if int (currentSize + itemSize) > maxTotalSize then Inr result
               else processArrayLoop maxTotalSize processFunc rest (currentSize + itemSize)
                      (result @ [processedItem])))"

definition processArrayWithSizeLimit ::
  "'a list \<Rightarrow> int \<Rightarrow> ('a \<Rightarrow> exn + js) \<Rightarrow> exn + js list" where
  "processArrayWithSizeLimit array maxTotalSize processFunc =
     processArrayLoop maxTotalSize processFunc array 0 []"

subsection \<open>Text that may be JSON\<close>

text \<open>
  \<^verbatim>\<open>JSON.parse\<close> is an argument: a function from the text to the parsed value or to
  the error it raises. The inner \<^verbatim>\<open>try\<close> also holds \<^verbatim>\<open>Object.keys(parsed)\<close>, which
  raises a \<^verbatim>\<open>TypeError\<close> for \<^verbatim>\<open>null\<close> and \<^verbatim>\<open>undefined\<close>; the inner \<^verbatim>\<open>catch\<close> takes that
  for a text that is not JSON as well.
\<close>

definition inner_try :: "(jsstring \<Rightarrow> exn + js) \<Rightarrow> jsstring \<Rightarrow> exn + js" where
  "inner_try parse jsonString =
     (case parse jsonString of
        Inl e \<Rightarrow> Inl e
      | Inr parsed \<Rightarrow> if parsed = JNull \<or> parsed = JUndefined then Inl TypeError else Inr parsed)"

text \<open>
  What the outer \<^verbatim>\<open>try\<close> block returns or raises. \<^verbatim>\<open>JSON.stringify\<close> of an array or
  an object is always a string.
\<close>

definition outer_try ::
  "settings \<Rightarrow> (jsstring \<Rightarrow> exn + js) \<Rightarrow> jsstring \<Rightarrow> int \<Rightarrow> exn + js" where
  "outer_try st parse jsonString maxLength =
     (case inner_try parse jsonString of
        Inl e \<Rightarrow> Inr (truncateStringsInData view_js (JStr jsonString) maxLength 0)
      | Inr parsed \<Rightarrow>
          (case parsed of
             JArr items \<Rightarrow>
               (case processArrayWithSizeLimit items (maxLogSize st)
                       (\<lambda>item. Inr (truncateStringsInData view_js item maxLength 0)) of
                  Inl e \<Rightarrow> Inl e
                | Inr processed \<Rightarrow> Inr (JStr (serialize (JArr processed))))
           | _ \<Rightarrow>
               (case JSON_stringify (truncateStringsInData view_js parsed maxLength 0) of
                  None \<Rightarrow> Inl TypeError
                | Some result \<Rightarrow> Inr (JStr result))))"

definition processJsonString ::
  "settings \<Rightarrow> (jsstring \<Rightarrow> exn + js) \<Rightarrow> jsstring \<Rightarrow> int \<Rightarrow> js" where
  "processJsonString st parse jsonString maxLength =
     (case outer_try st parse jsonString maxLength of
        Inr v \<Rightarrow> v
      | Inl e \<Rightarrow> JStr (substring0 jsonString maxLength @ TRUNCATED))"

section \<open>The session with the server\<close>

text \<open>
  The script keeps the state of its connection in five variables. What it asks of the
  browser (timers, sockets, messages to the rest of the extension) is recorded as a list
  of actions, and what the browser answers (the outcome of a \<^verbatim>\<open>fetch\<close>, of
  \<^verbatim>\<open>new WebSocket\<close>, of an evaluation in the inspected page) is an argument. Logging
  is left out. A timer is known by the handle that \<^verbatim>\<open>setTimeout\<close> returned; the
  handles are counted up in \<open>next_handle\<close>.
\<close>

datatype readyState = CONNECTING | OPEN | CLOSING | CLOSED

record socket =
  sock_host :: jsstring
  sock_port :: int
  readyState :: readyState

record session =
  ws :: "socket option"
  wsReconnectTimeout :: "nat option"
  heartbeatInterval :: "nat option"
  reconnectAfterValidation :: bool
  intentionalClosure :: bool
  next_handle :: nat

definition WS_RECONNECT_DELAY :: nat where
  "WS_RECONNECT_DELAY = 5000"

definition HEARTBEAT_INTERVAL :: nat where
  "HEARTBEAT_INTERVAL = 30000"

datatype failure = NetworkError | TimeoutError | Raised exn

datatype reason = http_error | invalid_signature | connection_error

datatype notification =
    SERVER_VALIDATION_FAILED reason "int option" "failure option" jsstring int
  | SERVER_VALIDATION_SUCCESS js jsstring int
  | WEBSOCKET_CONNECTED jsstring int

datatype callback = Reconnect | Heartbeat

datatype action =
    ClearTimeout nat
  | ClearInterval nat
  | SetTimeout nat callback nat
  | SetInterval nat callback nat
  | CloseSocket socket
  | NewWebSocket jsstring int
  | SendMessage notification

subsection \<open>Validating the server\<close>

text \<open>
  \<^verbatim>\<open>fetch\<close> either rejects or resolves to a response; \<^verbatim>\<open>response.json()\<close> either
  rejects or resolves to the parsed body.
\<close>

record response =
  ok :: bool
  status :: int
  json :: "failure + js"

datatype fetch_result = Rejected failure | Resolved response

definition EXPECTED_SIGNATURE :: jsstring where
  "EXPECTED_SIGNATURE = str ''mcp-browser-connector-24x7''"

text \<open>
  \<^verbatim>\<open>v.k\<close>: reading a property of \<^verbatim>\<open>null\<close> or \<^verbatim>\<open>undefined\<close> raises a \<^verbatim>\<open>TypeError\<close>.
  The property names read in this script (\<^verbatim>\<open>signature\<close>, \<^verbatim>\<open>type\<close>,
  \<^verbatim>\<open>requestId\<close>) are no properties of a string, a number, a boolean or an array.
\<close>

fun property :: "js \<Rightarrow> jsstring \<Rightarrow> exn + js" where
  "property JUndefined k = Inl TypeError"
| "property JNull k = Inl TypeError"
| "property (JObj es) k = Inr (get_property es k)"
| "property v k = Inr JUndefined"

text \<open>
  The line that is logged before the success is reported,
  \<^verbatim>\<open>`Server identity confirmed: ${identity.name} v${identity.version}`\<close>. The template
  converts the two properties to strings, which may raise; that happens inside the
  \<^verbatim>\<open>try\<close>.
\<close>

definition confirmation :: "js \<Rightarrow> exn + jsstring" where
  "confirmation identity =
     (case property identity (str ''name'') of
        Inl e \<Rightarrow> Inl e
      | Inr name \<Rightarrow>
          (case to_string name of
             Inl e \<Rightarrow> Inl e
           | Inr n \<Rightarrow>
               (case property identity (str ''version'') of
                  Inl e \<Rightarrow> Inl e
                | Inr version \<Rightarrow>
                    (case to_string version of
                       Inl e \<Rightarrow> Inl e
                     | Inr v \<Rightarrow> Inr (str ''Server identity confirmed: '' @ n @ str '' v'' @ v)))))"

definition validateServerIdentity :: "settings \<Rightarrow> fetch_result \<Rightarrow> bool \<times> notification list" where
  "validateServerIdentity st fetched =
     (case fetched of
        Rejected error \<Rightarrow>
          (False, [SERVER_VALIDATION_FAILED connection_error None (Some error)
                     (serverHost st) (serverPort st)])
      | Resolved response \<Rightarrow>
          if \<not> ok response then
            (False, [SERVER_VALIDATION_FAILED http_error (Some (status response)) None
                       (serverHost st) (serverPort st)])
          else
            (case json response of
               Inl error \<Rightarrow>
                 (False, [SERVER_VALIDATION_FAILED connection_error None (Some error)
                            (serverHost st) (serverPort st)])
             | Inr identity \<Rightarrow>
                 (case property identity (str ''signature'') of
                    Inl e \<Rightarrow>
                      (False, [SERVER_VALIDATION_FAILED connection_error None (Some (Raised e))
                                 (serverHost st) (serverPort st)])
                  | Inr signature \<Rightarrow>
                      if signature \<noteq> JStr EXPECTED_SIGNATURE then
                        (False, [SERVER_VALIDATION_FAILED invalid_signature None None
                                   (serverHost st) (serverPort st)])
                      else
                        (case confirmation identity of
                           Inl e \<Rightarrow>
                             (False, [SERVER_VALIDATION_FAILED connection_error None
                                        (Some (Raised e)) (serverHost st) (serverPort st)])
                         | Inr line \<Rightarrow>
                             (True, [SERVER_VALIDATION_SUCCESS identity
                                       (serverHost st) (serverPort st)])))))"

subsection \<open>Setting up the socket\<close>

definition set_timeout :: "session \<Rightarrow> callback \<Rightarrow> nat \<Rightarrow> session \<times> action list" where
  "set_timeout s cb delay =
     (s\<lparr>wsReconnectTimeout := Some (next_handle s), next_handle := next_handle s + 1\<rparr>,
      [SetTimeout (next_handle s) cb delay])"

text \<open>
  The part of \<^verbatim>\<open>setupWebSocket\<close> before it waits for the validation: pending timers
  are cleared and an existing socket is closed, with \<^verbatim>\<open>intentionalClosure\<close> set for
  the time of the call of \<^verbatim>\<open>close\<close>.
\<close>

definition clear_pending :: "session \<Rightarrow> session \<times> action list" where
  "clear_pending s =
     (let (s1, a1) = (case wsReconnectTimeout s of
                        Some h \<Rightarrow> (s\<lparr>wsReconnectTimeout := None\<rparr>, [ClearTimeout h])
                      | None \<Rightarrow> (s, []));
          (s2, a2) = (case heartbeatInterval s1 of
                        Some h \<Rightarrow> (s1\<lparr>heartbeatInterval := None\<rparr>, [ClearInterval h])
                      | None \<Rightarrow> (s1, []));
          (s3, a3) = (case ws s2 of
                        Some sock \<Rightarrow> (s2\<lparr>ws := None, intentionalClosure := False\<rparr>,
                                      [CloseSocket sock])
                      | None \<Rightarrow> (s2, []))
      in (s3, a1 @ a2 @ a3))"

text \<open>
  \<open>constructed\<close> is what \<^verbatim>\<open>new WebSocket(wsUrl)\<close> does: it returns a socket that is
  connecting, or raises.
\<close>

definition setupWebSocket ::
  "settings \<Rightarrow> fetch_result \<Rightarrow> exn option \<Rightarrow> session \<Rightarrow> session \<times> action list" where
  "setupWebSocket st fetched constructed s =
     (let (s1, a1) = clear_pending s;
          (isValid, notes) = validateServerIdentity st fetched
      in if \<not> isValid then
           (let (s2, a2) = set_timeout (s1\<lparr>reconnectAfterValidation := True\<rparr>)
                             Reconnect WS_RECONNECT_DELAY
            in (s2, a1 @ map SendMessage notes @ a2))
         else
           (case constructed of
              None \<Rightarrow>
                (s1\<lparr>reconnectAfterValidation := False,
                    ws := Some \<lparr>sock_host = serverHost st, sock_port = serverPort st,
                                readyState = CONNECTING\<rparr>\<rparr>,
                 a1 @ map SendMessage notes @ [NewWebSocket (serverHost st) (serverPort st)])
            | Some e \<Rightarrow>
                (let (s2, a2) = set_timeout (s1\<lparr>reconnectAfterValidation := False\<rparr>)
                                  Reconnect WS_RECONNECT_DELAY
                 in (s2, a1 @ map SendMessage notes @ a2))))"

subsection \<open>When the socket closes\<close>

definition ws_onclose :: "int \<Rightarrow> session \<Rightarrow> session \<times> action list" where
  "ws_onclose code s =
     (let (s1, a1) = (case heartbeatInterval s of
                        Some h \<Rightarrow> (s\<lparr>heartbeatInterval := None\<rparr>, [ClearInterval h])
                      | None \<Rightarrow> (s, []))
      in if intentionalClosure s1 then (s1, a1)
         else
           (let isAbnormalClosure = \<not> (code = 1000 \<or> code = 1001)
            in if isAbnormalClosure \<or> reconnectAfterValidation s1 then
                 (let (s2, a2) = set_timeout s1 Reconnect WS_RECONNECT_DELAY
                  in (s2, a1 @ a2))
               else (s1, a1)))"

definition is_reconnect :: "action \<Rightarrow> bool" where
  "is_reconnect a = (case a of SetTimeout h cb d \<Rightarrow> cb = Reconnect | _ \<Rightarrow> False)"

definition is_new_socket :: "action \<Rightarrow> bool" where
  "is_new_socket a = (case a of NewWebSocket h p \<Rightarrow> True | _ \<Rightarrow> False)"

subsection \<open>Commands from the server\<close>

text \<open>
  \<^verbatim>\<open>ws.send\<close> on the variable \<^verbatim>\<open>ws\<close> as it is when the call is made: the variable
  may hold \<^verbatim>\<open>null\<close>, a socket that is still connecting makes \<^verbatim>\<open>send\<close> raise, an
  open one transmits the frame, and one that is closing or closed drops it.
\<close>

definition ws_send :: "session \<Rightarrow> jsstring \<Rightarrow> exn + jsstring list" where
  "ws_send s frame =
     (case ws s of
        None \<Rightarrow> Inl TypeError
      | Some sock \<Rightarrow>
          (case readyState sock of
             CONNECTING \<Rightarrow> Inl InvalidStateError
           | OPEN \<Rightarrow> Inr [frame]
           | _ \<Rightarrow> Inr []))"

fun truthy :: "js \<Rightarrow> bool" where
  "truthy JUndefined = False"
| "truthy JNull = False"
| "truthy (JBool b) = b"
| "truthy (JNum t) = (t \<noteq> ''0'' \<and> t \<noteq> ''NaN'')"
| "truthy (JStr s) = (s \<noteq> [])"
| "truthy (JArr xs) = True"
| "truthy (JObj es) = True"

text \<open>What the handler of a message starts, with the \<^verbatim>\<open>requestId\<close> of the message.\<close>

datatype request =
    CaptureVisibleTab js
  | EvalCookies js
  | EvalLocalStorage js
  | EvalSessionStorage js

definition ws_onmessage :: "(jsstring \<Rightarrow> exn + js) \<Rightarrow> jsstring \<Rightarrow> request option" where
  "ws_onmessage parse data =
     (case parse data of
        Inl e \<Rightarrow> None
      | Inr message \<Rightarrow>
          (case property message (str ''type'') of
             Inl e \<Rightarrow> None
           | Inr msg_type \<Rightarrow>
               (case property message (str ''requestId'') of
                  Inl e \<Rightarrow> None
                | Inr requestId \<Rightarrow>
                    if msg_type = JStr (str ''heartbeat-response'') then None
                    else if msg_type = JStr (str ''take-screenshot'') then Some (CaptureVisibleTab requestId)
                    else if msg_type = JStr (str ''get-cookies'') then Some (EvalCookies requestId)
                    else if msg_type = JStr (str ''get-local-storage'') then Some (EvalLocalStorage requestId)
                    else if msg_type = JStr (str ''get-session-storage'')
                      then Some (EvalSessionStorage requestId)
                    else None)))"

definition cookies_error_frame :: "js \<Rightarrow> js \<Rightarrow> js" where
  "cookies_error_frame isException requestId =
     JObj [(str ''type'', JStr (str ''cookies-error'')),
           (str ''error'',
            if truthy isException then isException else JStr (str ''Failed to get cookies'')),
           (str ''requestId'', requestId)]"

definition cookies_data_frame :: "js \<Rightarrow> js \<Rightarrow> js" where
  "cookies_data_frame cookies requestId =
     JObj [(str ''type'', JStr (str ''cookies-data'')), (str ''cookies'', cookies),
           (str ''requestId'', requestId)]"

text \<open>
  The function that the \<^verbatim>\<open>get-cookies\<close> branch gives to
  \<^verbatim>\<open>chrome.devtools.inspectedWindow.eval\<close>, called with the result of the
  evaluation and the exception information. Its value is the frames that go out on the
  socket, or the error that ends it: nothing catches what the filter or \<^verbatim>\<open>ws.send\<close>
  raises.
\<close>

definition cookies_callback ::
  "settings \<Rightarrow> session \<Rightarrow> js \<Rightarrow> js \<Rightarrow> js \<Rightarrow> exn + jsstring list" where
  "cookies_callback st s requestId result isException =
     (if truthy isException \<or> \<not> truthy result then
        ws_send s (serialize (cookies_error_frame isException requestId))
      else
        (let cookies = (case result of JArr xs \<Rightarrow> result | _ \<Rightarrow> JArr [])
         in case (if sensitiveDataMode st \<noteq> str ''show-all''
                  then filterSensitiveCookies st cookies else Inr cookies) of
              Inl e \<Rightarrow> Inl e
            | Inr cookies \<Rightarrow> ws_send s (serialize (cookies_data_frame cookies requestId))))"

text \<open>
  What the script that is evaluated in the page returns when it does not raise: the
  array of the cookies of \<^verbatim>\<open>document.cookie\<close>, each an object with the strings \<^verbatim>\<open>name\<close>
  and \<^verbatim>\<open>value\<close>.
\<close>

definition cookie_object :: "jsstring \<times> jsstring \<Rightarrow> js" where
  "cookie_object c = JObj [(str ''name'', JStr (fst c)), (str ''value'', JStr (snd c))]"

definition script_result :: "(jsstring \<times> jsstring) list \<Rightarrow> js" where
  "script_result cs = JArr (map cookie_object cs)"


section \<open>Vocabulary of the statements\<close>

text \<open>The characters of the class \<^verbatim>\<open>[A-Za-z0-9_-]\<close>, written out.\<close>

definition base64url_chars :: string where
  "base64url_chars = ''ABCDEFGHIJKLMNOPQRSTUVWXYZabcdefghijklmnopqrstuvwxyz0123456789_-''"

text \<open>A value with the shape of a UUID.\<close>

definition session_uuid :: jsstring where
  "session_uuid = str ''deadbeef-dead-beef-dead-beefdeadbeef''"

text \<open>
  A character outside the basic plane, which a string holds as two code units: U+1F600,
  the surrogates D83D and DE00.
\<close>

definition grinning_face :: jsstring where
  "grinning_face = [0xD83D, 0xDE00]"

text \<open>
  A pattern that accepts nothing unless the first code unit of the text is below 128:
  every way through it begins with a class whose ranges all end below 128.
\<close>

fun needs_ascii_first :: "rx \<Rightarrow> bool" where
  "needs_ascii_first Eps = False"
| "needs_ascii_first (Cls rs) = list_all (\<lambda>r. of_char (snd r) < (128::nat)) rs"
| "needs_ascii_first (Seq r1 r2) = needs_ascii_first r1"
| "needs_ascii_first (Alt r1 r2) = (needs_ascii_first r1 \<and> needs_ascii_first r2)"
| "needs_ascii_first (Rep lo hi r) = (0 < lo \<and> needs_ascii_first r)"

text \<open>
  A position in a value is the list of the indices to follow from the root: the index of
  an element in an array, of an entry in an object.
\<close>

fun children :: "js \<Rightarrow> js list" where
  "children (JArr xs) = xs"
| "children (JObj es) = map snd es"
| "children v = []"

fun at_path :: "js \<Rightarrow> nat list \<Rightarrow> js option" where
  "at_path v [] = Some v"
| "at_path v (i # p) = (if i < length (children v) then at_path (children v ! i) p else None)"

text \<open>
  The same for the data that is truncated, seen through a view. The positions are
  counted in the entries that an assignment keeps, so that a position of the data is the
  same position of the result.
\<close>

fun kept_children :: "'a view \<Rightarrow> 'a list" where
  "kept_children (VArray items) = items"
| "kept_children (VObject entries) = map snd (assignable entries)"
| "kept_children v = []"

fun input_at :: "('a \<Rightarrow> 'a view) \<Rightarrow> 'a \<Rightarrow> nat list \<Rightarrow> 'a option" where
  "input_at view d [] = Some d"
| "input_at view d (i # p) =
     (if i < length (kept_children (view d)) then input_at view (kept_children (view d) ! i) p
      else None)"

text \<open>A value inside \<open>n\<close> arrays, each of which holds nothing else.\<close>

primrec nest :: "nat \<Rightarrow> js \<Rightarrow> js" where
  "nest 0 v = v"
| "nest (Suc n) v = JArr [nest n v]"

text \<open>
  An object graph with a cycle: at every address there is an array whose one element is
  the array itself, as after \<^verbatim>\<open>a = []; a.push(a)\<close>.
\<close>

definition cyclic_array :: "nat \<Rightarrow> nat view" where
  "cyclic_array a = VArray [a]"

text \<open>The sum of the serialised sizes of the items of a list.\<close>

definition total_size :: "js list \<Rightarrow> nat" where
  "total_size ps = sum_list (map (\<lambda>p. length (serialize p)) ps)"

text \<open>The values that \<^verbatim>\<open>JSON.parse\<close> returns hold no \<^verbatim>\<open>undefined\<close>.\<close>

fun json_value :: "js \<Rightarrow> bool" where
  "json_value JUndefined = False"
| "json_value (JArr xs) = list_all json_value xs"
| "json_value (JObj es) = list_all (\<lambda>e. json_value (snd e)) es"
| "json_value v = True"

text \<open>States of the session, and answers of a server, for the examples.\<close>

definition connected_session :: session where
  "connected_session =
     \<lparr> ws = Some \<lparr>sock_host = str ''localhost'', sock_port = 3025, readyState = OPEN\<rparr>,
       wsReconnectTimeout = None, heartbeatInterval = Some 1,
       reconnectAfterValidation = False, intentionalClosure = False, next_handle = 2 \<rparr>"

definition wrong_identity :: "(jsstring \<times> js) list" where
  "wrong_identity =
     [(str ''name'', JStr (str ''other-server'')), (str ''version'', JStr (str ''1.0.0'')),
      (str ''signature'', JStr (str ''someone-else''))]"

definition wrong_signature :: response where
  "wrong_signature = \<lparr> ok = True, status = 200, json = Inr (JObj wrong_identity) \<rparr>"

definition server_error :: response where
  "server_error =
     \<lparr> ok = False, status = 500,
       json = Inr (JObj [(str ''signature'', JStr (str ''someone-else''))]) \<rparr>"

text \<open>
  A command of the server, a parser that reads it, and two results of the script that
  reads the cookies: the one of a page with two cookies, and one in which a cookie's name
  is an object with an entry \<^verbatim>\<open>toString\<close>, as a page can make the script return.
\<close>

definition get_cookies_command :: "(jsstring \<times> js) list" where
  "get_cookies_command =
     [(str ''type'', JStr (str ''get-cookies'')), (str ''requestId'', JStr (str ''r1''))]"

definition command_parse :: "jsstring \<Rightarrow> exn + js" where
  "command_parse data = Inr (JObj get_cookies_command)"

definition two_cookies :: js where
  "two_cookies = script_result [(str ''theme'', str ''dark''), (str ''auth_token'', str ''abc'')]"

definition odd_cookie :: js where
  "odd_cookie = JArr [JObj [(str ''name'', JObj [(str ''toString'', JNull)]),
                            (str ''value'', JStr (str ''abc''))]]"

section \<open>Properties of the classifiers\<close>

subsection \<open>Values that are never sensitive\<close>

text \<open>
  C5. A value that is not a string is not sensitive, and a string of fewer than 8
  characters is not sensitive, whatever it holds.
\<close>

theorem isSensitiveValue_not_string_or_short:
  "((\<forall>s. v \<noteq> JStr s) \<longrightarrow> \<not> isSensitiveValue v) \<and>
   (length s < 8 \<longrightarrow> \<not> isSensitiveValue (JStr s))"
  by (cases v) (simp_all add: isSensitiveValue_def)

lemma jwt_shape: "test jwt_pattern (str ''eyJ.a.b'')"
  by code_simp

text \<open>
  The short string of the witness has the shape of a token of three segments, which the
  first pattern accepts; its length alone keeps it from being sensitive.
\<close>

theorem isSensitiveValue_not_string_or_short_witness:
  "(\<forall>s. JNum ''42'' \<noteq> JStr s) \<and> length (str ''eyJ.a.b'') < 8
   \<and> test jwt_pattern (str ''eyJ.a.b'')
   \<and> \<not> isSensitiveValue (JNum ''42'')
   \<and> \<not> isSensitiveValue (JStr (str ''eyJ.a.b''))"
  using isSensitiveValue_not_string_or_short [of "JNum ''42''" "str ''eyJ.a.b''"]
    jwt_shape
  by (simp add: str_def)


subsection \<open>The generic key pattern\<close>

lemma rep_consumes_all:
  assumes m: "\<And>c cs. P c \<Longrightarrow> m (c # cs) = [cs]"
  shows "\<forall>c\<in>set s. P c \<Longrightarrow> lo \<le> length s \<Longrightarrow> length s \<le> hi \<Longrightarrow>
         [] \<in> set (rep m lo hi s)"
proof (induction hi arbitrary: lo s)
  case 0
  then show ?case by simp
next
  case (Suc hi)
  show ?case
  proof (cases s)
    case Nil
    with Suc.prems show ?thesis by simp
  next
    case (Cons c cs)
    with Suc.prems have "[] \<in> set (rep m (lo - 1) hi cs)"
      by (intro Suc.IH) auto
    moreover from Cons Suc.prems have "m s = [cs]"
      by (simp add: m)
    ultimately show ?thesis by simp
  qed
qed

lemma base64url_chars_in_class: "\<forall>c\<in>set (str base64url_chars). in_class False base64url c"
  by code_simp

lemma generic_api_key_matches:
  assumes "set s \<subseteq> set (str base64url_chars)" "16 \<le> length s" "length s \<le> 128"
  shows "test generic_api_key_pattern s"
proof -
  have "\<forall>c\<in>set s. in_class False base64url c"
    using assms(1) base64url_chars_in_class by blast
  then have "[] \<in> set (rep (rmatch False (Cls base64url)) 16 128 s)"
    using assms(2,3)
    by (intro rep_consumes_all [where P = "in_class False base64url"]) simp_all
  then show ?thesis
    by (simp add: test_def generic_api_key_pattern_def between_def)
qed

text \<open>
  C10. A string of 16 to 128 characters, all of them from \<^verbatim>\<open>[A-Za-z0-9_-]\<close>, matches
  the generic key pattern and is therefore sensitive, however repetitive it is.
\<close>

theorem isSensitiveValue_generic_api_key:
  "set s \<subseteq> set (str base64url_chars) \<Longrightarrow> 16 \<le> length s \<Longrightarrow> length s \<le> 128 \<Longrightarrow>
   test generic_api_key_pattern s \<and> isSensitiveValue (JStr s)"
  using generic_api_key_matches [of s]
  by (simp add: isSensitiveValue_def SENSITIVE_VALUE_PATTERNS_def)

theorem isSensitiveValue_generic_api_key_witness:
  "set (str ''aaaaaaaaaaaaaaaaaaaa'') \<subseteq> set (str base64url_chars)
   \<and> 16 \<le> length (str ''aaaaaaaaaaaaaaaaaaaa'')
   \<and> length (str ''aaaaaaaaaaaaaaaaaaaa'') \<le> 128
   \<and> test generic_api_key_pattern (str ''aaaaaaaaaaaaaaaaaaaa'')
   \<and> isSensitiveValue (JStr (str ''aaaaaaaaaaaaaaaaaaaa''))"
proof -
  have h: "set (str ''aaaaaaaaaaaaaaaaaaaa'') \<subseteq> set (str base64url_chars)"
    by (simp add: base64url_chars_def str_def)
  show ?thesis
    using h isSensitiveValue_generic_api_key [OF h] by (simp add: str_def)
qed


subsection \<open>A storage entry named \<^verbatim>\<open>sessionId\<close>\<close>

lemma session_uuid_matches: "test uuid_pattern session_uuid"
  by code_simp

lemma uuid_pattern_listed: "uuid_pattern \<in> set SENSITIVE_VALUE_PATTERNS"
  by (simp add: SENSITIVE_VALUE_PATTERNS_def)

lemma session_uuid_sensitive: "isSensitiveValue (JStr session_uuid)"
proof -
  have "list_ex (\<lambda>pattern. test pattern session_uuid) SENSITIVE_VALUE_PATTERNS"
    unfolding list_ex_iff using session_uuid_matches uuid_pattern_listed by blast
  moreover have "\<not> length session_uuid < 8"
    by (simp add: session_uuid_def str_def)
  ultimately show ?thesis
    by (simp add: isSensitiveValue_def)
qed

lemma sessionId_matches_session: "test (keyword ''session'') (str ''sessionId'')"
  by code_simp

lemma sessionId_sensitive_key: "isSensitiveKey (str ''sessionId'')"
proof -
  have "keyword ''session'' \<in> set SENSITIVE_KEY_PATTERNS"
    by (simp add: SENSITIVE_KEY_PATTERNS_def)
  with sessionId_matches_session show ?thesis
    unfolding isSensitiveKey_def list_ex_iff by blast
qed

lemma sessionId_assignable: "str ''sessionId'' \<noteq> PROTO"
  by (simp add: PROTO_def str_def)

text \<open>
  C4, as the code has it. Under the mode \<^verbatim>\<open>hide-sensitive\<close> the entry
  \<^verbatim>\<open>sessionId\<close> of the example is replaced by the redaction marker. Its value has the
  shape of a UUID and is sensitive by itself. Its key is sensitive by itself as well: it
  contains \<^verbatim>\<open>session\<close>, the fourth of the key patterns.
\<close>

theorem filterSensitiveStorage_sessionId:
  "sensitiveDataMode st = str ''hide-sensitive'' \<Longrightarrow>
   filterSensitiveStorage st (JObj [(str ''sessionId'', JStr session_uuid)])
     = JObj [(str ''sessionId'', JStr (str ''[SENSITIVE DATA REDACTED]''))]
   \<and> test uuid_pattern session_uuid
   \<and> isSensitiveValue (JStr session_uuid)
   \<and> isSensitiveKey (str ''sessionId'')"
  using session_uuid_matches session_uuid_sensitive sessionId_sensitive_key sessionId_assignable
  by (simp add: filterSensitiveStorage_def redact_entry_def must_redact_def REDACTED_def
      assignable_def)

theorem filterSensitiveStorage_sessionId_witness:
  "sensitiveDataMode (default_settings\<lparr>sensitiveDataMode := str ''hide-sensitive''\<rparr>)
     = str ''hide-sensitive''
   \<and> filterSensitiveStorage (default_settings\<lparr>sensitiveDataMode := str ''hide-sensitive''\<rparr>)
        (JObj [(str ''sessionId'', JStr (str ''deadbeef-dead-beef-dead-beefdeadbeef''))])
      = JObj [(str ''sessionId'', JStr (str ''[SENSITIVE DATA REDACTED]''))]"
  using filterSensitiveStorage_sessionId
          [of "default_settings\<lparr>sensitiveDataMode := str ''hide-sensitive''\<rparr>"]
  by (simp add: session_uuid_def)

text \<open>
  The statement that the entry is redacted while its key is not sensitive does not hold.
\<close>

theorem sessionId_key_counterexample:
  "\<not> (filterSensitiveStorage (default_settings\<lparr>sensitiveDataMode := str ''hide-sensitive''\<rparr>)
        (JObj [(str ''sessionId'', JStr (str ''deadbeef-dead-beef-dead-beefdeadbeef''))])
      = JObj [(str ''sessionId'', JStr (str ''[SENSITIVE DATA REDACTED]''))]
      \<and> isSensitiveKey (str ''sessionId'') = False)"
  using sessionId_sensitive_key by simp


subsection \<open>Strings of one distinct character\<close>

text \<open>
  First the strings of one code unit, repeated. Their entropy is 0 and the greatest
  possible entropy is \<^verbatim>\<open>Math.log2(1)\<close>, which is 0 too: the quotient is \<^verbatim>\<open>NaN\<close>. The
  test \<^verbatim>\<open>uniqueChars === 0\<close> catches the empty string only.
\<close>

lemma code_points_one_unit: "code_points (replicate n u) = replicate n [u]"
proof (cases n)
  case 0
  then show ?thesis by simp
next
  case (Suc m)
  have "code_points (replicate (Suc m) u) = replicate (Suc m) [u]"
    by (induction m) (simp_all add: is_high_surrogate_def is_low_surrogate_def)
  with Suc show ?thesis by simp
qed

lemma frequencies_step:
  "fold (\<lambda>c freq. map_set freq c ((case map_get freq c of None \<Rightarrow> 0 | Some n \<Rightarrow> n) + 1))
        (replicate n c) [(c, k)] = [(c, k + n)]"
  by (induction n arbitrary: k) simp_all

lemma frequencies_one_unit: "frequencies (replicate (Suc n) u) = [([u], Suc n)]"
proof -
  have "frequencies (replicate (Suc n) u)
          = fold (\<lambda>c freq. map_set freq c ((case map_get freq c of None \<Rightarrow> 0 | Some n \<Rightarrow> n) + 1))
                 (replicate n [u]) [([u], 1)]"
    unfolding frequencies_def code_points_one_unit by simp
  then show ?thesis
    using frequencies_step [of n "[u]" 1] by simp
qed

lemma remdups_one_character: "remdups (replicate (Suc n) c) = [c]"
  by (induction n) simp_all

lemma entropy_one_unit: "calculateNormalizedEntropy (replicate (Suc n) u) = NaN"
  by (simp add: calculateNormalizedEntropy_def frequencies_one_unit code_points_one_unit
      remdups_one_character js_div_def del: replicate.simps)

text \<open>
  The comparison of \<^verbatim>\<open>NaN\<close> with 0.65 is false, so such a string is sensitive only when
  one of the patterns accepts it. The patterns are tried before the entropy: twenty times
  \<^verbatim>\<open>!\<close> is not sensitive, sixteen times \<^verbatim>\<open>z\<close> is a generic key.
\<close>

lemma one_code_unit_not_sensitive:
  "\<not> list_ex (\<lambda>pattern. test pattern (replicate n u)) SENSITIVE_VALUE_PATTERNS \<Longrightarrow>
   \<not> isSensitiveValue (JStr (replicate n u))"
proof (cases n)
  case 0
  then show ?thesis by (simp add: isSensitiveValue_def)
next
  case (Suc m)
  assume "\<not> list_ex (\<lambda>pattern. test pattern (replicate n u)) SENSITIVE_VALUE_PATTERNS"
  with Suc show ?thesis
    using entropy_one_unit [of m u] by (simp add: isSensitiveValue_def del: replicate.simps)
qed

lemma bangs_match_nothing:
  "\<not> list_ex (\<lambda>pattern. test pattern (replicate 20 (of_char CHR ''!'')))
        SENSITIVE_VALUE_PATTERNS"
  by code_simp

lemma bangs_not_sensitive: "\<not> isSensitiveValue (JStr (replicate 20 (of_char CHR ''!'')))"
  using bangs_match_nothing by (rule one_code_unit_not_sensitive)

lemma zs_match: "test generic_api_key_pattern (replicate 16 (of_char CHR ''z''))"
  by code_simp

lemma zs_sensitive: "isSensitiveValue (JStr (replicate 16 (of_char CHR ''z'')))"
proof -
  have "generic_api_key_pattern \<in> set SENSITIVE_VALUE_PATTERNS"
    by (simp add: SENSITIVE_VALUE_PATTERNS_def)
  with zs_match
  have "list_ex (\<lambda>pattern. test pattern (replicate 16 (of_char CHR ''z'')))
          SENSITIVE_VALUE_PATTERNS"
    unfolding list_ex_iff by blast
  then show ?thesis by (simp add: isSensitiveValue_def)
qed

text \<open>
  Now the strings of one character that takes two code units. Every value pattern is
  anchored at the start and begins with a character below 128, so none accepts a string
  that begins with a surrogate.
\<close>

lemma high_surrogate_range: "is_high_surrogate u \<longleftrightarrow> 0xD800 \<le> u \<and> u \<le> 0xDBFF"
  unfolding is_high_surrogate_def by linarith

lemma low_surrogate_range: "is_low_surrogate u \<longleftrightarrow> 0xDC00 \<le> u \<and> u \<le> 0xDFFF"
  unfolding is_low_surrogate_def by linarith

lemma rep_needs_first: "0 < lo \<Longrightarrow> m s = [] \<Longrightarrow> rep m lo hi s = []"
  by (cases hi) simp_all

lemma not_in_ascii_class:
  "128 \<le> u \<Longrightarrow> list_all (\<lambda>r. of_char (snd r) < (128::nat)) rs \<Longrightarrow> \<not> in_class ci rs u"
  by (auto simp: in_class_def list_ex_iff list_all_iff in_range_def to_upper_def to_lower_def
      is_upper_def is_lower_def)

lemma needs_ascii_first_rejects:
  "needs_ascii_first r \<Longrightarrow> 128 \<le> u \<Longrightarrow> rmatch ci r (u # s) = []"
proof (induction r arbitrary: s)
  case (Cls rs)
  then show ?case using not_in_ascii_class [of u rs ci] by simp
next
  case (Rep lo hi r)
  then have "rmatch ci r (u # s) = []" by simp
  with Rep.prems show ?case by (simp add: rep_needs_first)
qed simp_all

lemma value_patterns_need_ascii_first:
  "list_all (\<lambda>pattern. anchored pattern \<and> needs_ascii_first (body pattern))
     SENSITIVE_VALUE_PATTERNS"
  by code_simp

lemma patterns_reject_other_first:
  assumes "128 \<le> u"
  shows "\<not> list_ex (\<lambda>pattern. test pattern (u # s)) SENSITIVE_VALUE_PATTERNS"
proof -
  have "\<not> test pattern (u # s)" if "pattern \<in> set SENSITIVE_VALUE_PATTERNS" for pattern
  proof -
    from that value_patterns_need_ascii_first
    have "anchored pattern" "needs_ascii_first (body pattern)"
      by (simp_all add: list_all_iff)
    with assms show ?thesis
      by (simp add: test_def needs_ascii_first_rejects)
  qed
  then show ?thesis by (auto simp: list_ex_iff)
qed

text \<open>
  The \<^verbatim>\<open>Map\<close> and the \<^verbatim>\<open>Set\<close> count such a character once for every pair, while
  \<^verbatim>\<open>str.length\<close> counts both code units. The one frequency is half the length, the
  entropy is one half, and the quotient by \<^verbatim>\<open>Math.log2(1)\<close> is \<^verbatim>\<open>Infinity\<close>.
\<close>

lemma code_points_pairs:
  "is_high_surrogate h \<Longrightarrow> is_low_surrogate l \<Longrightarrow>
   code_points (concat (replicate n [h, l])) = replicate n [h, l]"
  by (induction n) simp_all

lemma frequencies_pairs:
  assumes "is_high_surrogate h" "is_low_surrogate l"
  shows "frequencies (concat (replicate (Suc n) [h, l])) = [([h, l], Suc n)]"
proof -
  have "frequencies (concat (replicate (Suc n) [h, l]))
          = fold (\<lambda>c freq. map_set freq c ((case map_get freq c of None \<Rightarrow> 0 | Some n \<Rightarrow> n) + 1))
                 (replicate n [h, l]) [([h, l], 1)]"
    unfolding frequencies_def code_points_pairs [OF assms] by simp
  then show ?thesis
    using frequencies_step [of n "[h, l]" 1] by simp
qed

lemma log_half: "log 2 (1 / 2) = - 1"
  by (simp add: log_divide)

lemma half_entropy: "real (Suc n) / real (2 * Suc n) = 1 / 2"
  by (simp add: field_simps)

lemma entropy_pairs:
  assumes "is_high_surrogate h" "is_low_surrogate l"
  shows "calculateNormalizedEntropy (concat (replicate (Suc n) [h, l])) = PosInf"
proof -
  have len: "length (concat (replicate (Suc n) [h, l])) = 2 * Suc n"
    by (induction n) simp_all
  have e: "fold (\<lambda>count entropy.
                   entropy - real count / real (2 * Suc n)
                             * log 2 (real count / real (2 * Suc n)))
                (map snd [([h, l], Suc n)]) 0 = 1 / 2"
    using log_half half_entropy [of n] by (simp del: of_nat_Suc of_nat_mult)
  show ?thesis
    unfolding calculateNormalizedEntropy_def Let_def len frequencies_pairs [OF assms]
      code_points_pairs [OF assms] remdups_one_character e
    by (simp add: js_div_def)
qed

lemma astral_character_sensitive:
  assumes "is_high_surrogate h" "is_low_surrogate l" "8 < n"
  shows "isSensitiveValue (JStr (concat (replicate n [h, l])))"
proof -
  from assms(3) obtain m where n: "n = Suc m" by (cases n) simp_all
  have "128 \<le> h" using assms(1) by (simp add: high_surrogate_range)
  then have "\<not> list_ex (\<lambda>pattern. test pattern (concat (replicate n [h, l])))
               SENSITIVE_VALUE_PATTERNS"
    using patterns_reject_other_first [of h] n by simp
  moreover have "length (concat (replicate n [h, l])) = 2 * n"
    by (induction n) simp_all
  moreover have "calculateNormalizedEntropy (concat (replicate n [h, l])) = PosInf"
    using entropy_pairs [OF assms(1,2)] n by simp
  ultimately show ?thesis
    using assms(3) by (simp add: isSensitiveValue_def)
qed

lemma grinning_face_surrogates: "is_high_surrogate 0xD83D" "is_low_surrogate 0xDE00"
  by (simp_all add: is_high_surrogate_def is_low_surrogate_def)

lemma grinning_faces_one_character:
  "remdups (code_points (concat (replicate 9 grinning_face))) = [grinning_face]"
proof -
  have "remdups (code_points (concat (replicate (Suc 8) [0xD83D, 0xDE00])))
          = [[0xD83D, 0xDE00]]"
    unfolding code_points_pairs [OF grinning_face_surrogates] by (rule remdups_one_character)
  then show ?thesis by (simp add: grinning_face_def)
qed

lemma grinning_faces_match_nothing:
  "\<not> list_ex (\<lambda>pattern. test pattern (concat (replicate 9 grinning_face)))
        SENSITIVE_VALUE_PATTERNS"
proof -
  have "concat (replicate (Suc 8) grinning_face)
          = 0xD83D # 0xDE00 # concat (replicate 8 grinning_face)"
    by (simp only: replicate_Suc concat.simps grinning_face_def append.simps)
  moreover have "Suc 8 = 9" by simp
  ultimately have "concat (replicate 9 grinning_face)
                     = 0xD83D # 0xDE00 # concat (replicate 8 grinning_face)"
    by (simp only:)
  then show ?thesis
    using patterns_reject_other_first [of "0xD83D" "0xDE00 # concat (replicate 8 grinning_face)"]
    by (simp only:) simp
qed

lemma grinning_faces_entropy:
  "calculateNormalizedEntropy (concat (replicate 9 grinning_face)) = PosInf"
  using entropy_pairs [OF grinning_face_surrogates, of 8] by (simp add: grinning_face_def)

text \<open>
  C3. The code does not do what the statement says. Nine times U+1F600 is a string of one
  distinct character that no pattern accepts. The guard \<^verbatim>\<open>uniqueChars === 0\<close> lets it
  through to a division by \<^verbatim>\<open>Math.log2(1)\<close>, which is 0; the normalised entropy is
  \<^verbatim>\<open>Infinity\<close>, and the string is sensitive.
\<close>

theorem one_astral_character_sensitive:
  "remdups (code_points (concat (replicate 9 grinning_face))) = [grinning_face]
   \<and> \<not> list_ex (\<lambda>pattern. test pattern (concat (replicate 9 grinning_face)))
          SENSITIVE_VALUE_PATTERNS
   \<and> calculateNormalizedEntropy (concat (replicate 9 grinning_face)) = PosInf
   \<and> isSensitiveValue (JStr (concat (replicate 9 grinning_face)))"
proof -
  have "isSensitiveValue (JStr (concat (replicate 9 [0xD83D, 0xDE00])))"
    using grinning_face_surrogates by (rule astral_character_sensitive) simp
  then have "isSensitiveValue (JStr (concat (replicate 9 grinning_face)))"
    by (simp only: grinning_face_def)
  with grinning_faces_one_character grinning_faces_match_nothing grinning_faces_entropy
  show ?thesis by blast
qed

section \<open>Properties of the bounding of payloads\<close>

subsection \<open>The depth limit\<close>

text \<open>
  \<^const>\<open>truncateStringsInData\<close> is a total function: its recursion was shown to end by
  the depth alone, which grows by one at every call and stops the recursion beyond 100,
  whatever the data is and however it is viewed. That bounds the depth of the calls and
  not their number: on an array that holds itself twice the calls double at every level.
\<close>

lemma depth_guard:
  "100 < depth \<Longrightarrow> truncateStringsInData view data maxLength depth = JStr MAX_DEPTH_EXCEEDED"
  by (simp add: truncateStringsInData.simps)

lemma within_depth:
  "depth \<le> 100 \<Longrightarrow>
   truncateStringsInData view data maxLength depth =
     (case view data of
        VString s \<Rightarrow>
          if int (length s) > maxLength then JStr (substring0 s maxLength @ TRUNCATED)
          else JStr s
      | VArray items \<Rightarrow>
          JArr (map (\<lambda>item. truncateStringsInData view item maxLength (depth + 1)) items)
      | VObject entries \<Rightarrow>
          JObj (assignable
                  (map (\<lambda>e. (fst e, truncateStringsInData view (snd e) maxLength (depth + 1)))
                       entries))
      | VOther v \<Rightarrow> js_of_scalar v)"
  by (subst truncateStringsInData.simps) simp

lemma children_scalar: "children (js_of_scalar v) = []"
  by (cases v) simp_all

lemma assignable_map:
  "map snd (assignable (map (\<lambda>e. (fst e, f (snd e))) es)) = map (f \<circ> snd) (assignable es)"
  by (induction es) (simp_all add: assignable_def)

lemma children_truncated:
  "depth \<le> 100 \<Longrightarrow>
   children (truncateStringsInData view data maxLength depth)
     = map (\<lambda>d. truncateStringsInData view d maxLength (depth + 1)) (kept_children (view data))"
proof (cases "view data")
  case (VObject entries)
  assume "depth \<le> 100"
  with VObject show ?thesis
    using assignable_map [of "\<lambda>d. truncateStringsInData view d maxLength (depth + 1)" entries]
    by (simp add: within_depth)
qed (simp_all add: within_depth children_scalar)

text \<open>
  Down to level 101 the result has the shape of the data, without the entries that the
  assignment drops: a position of the data is the same position of the result.
\<close>

lemma mirrors_input:
  "input_at view data p = Some d \<Longrightarrow> depth + length p \<le> 101 \<Longrightarrow>
   at_path (truncateStringsInData view data maxLength depth) p
     = Some (truncateStringsInData view d maxLength (depth + length p))"
proof (induction p arbitrary: data depth)
  case Nil
  then show ?case by simp
next
  case (Cons i p)
  then have depth: "depth \<le> 100" by simp
  from Cons.prems(1) have i: "i < length (kept_children (view data))"
    and rest: "input_at view (kept_children (view data) ! i) p = Some d"
    by (simp_all split: if_splits)
  from Cons.prems(2) have "depth + 1 + length p \<le> 101" by simp
  from Cons.IH [OF rest this] i show ?case
    by (simp add: children_truncated [OF depth])
qed

text \<open>
  So wherever the data, cyclic or not, has something at level 101 that is not below an
  entry \<^verbatim>\<open>__proto__\<close>, the result has the marker there; and the result has nothing
  else at level 101 and nothing below it.
\<close>

lemma marker_at_cutoff:
  "input_at view data p = Some d \<Longrightarrow> length p = 101 \<Longrightarrow>
   at_path (truncateStringsInData view data maxLength 0) p = Some (JStr MAX_DEPTH_EXCEEDED)"
  using mirrors_input [of view data p d 0 maxLength] by (simp add: depth_guard)

lemma cut_at_depth:
  "at_path (truncateStringsInData view data maxLength depth) p = Some v \<Longrightarrow>
   depth \<le> 101 \<Longrightarrow> 101 \<le> depth + length p \<Longrightarrow>
   depth + length p = 101 \<and> v = JStr MAX_DEPTH_EXCEEDED"
proof (induction p arbitrary: data depth)
  case Nil
  then show ?case by (simp add: depth_guard)
next
  case (Cons i p)
  show ?case
  proof (cases "depth \<le> 100")
    case False
    with Cons.prems show ?thesis by (simp add: depth_guard)
  next
    case True
    from Cons.prems(1) True
    have i: "i < length (kept_children (view data))"
      and "at_path (truncateStringsInData view (kept_children (view data) ! i) maxLength
                      (depth + 1)) p = Some v"
      by (simp_all add: children_truncated split: if_splits)
    from Cons.IH [OF this(2)] True Cons.prems(3) show ?thesis by simp
  qed
qed

lemma cyclic_cut:
  "at_path (truncateStringsInData cyclic_array 0 500 0) (replicate 101 0)
     = Some (JStr MAX_DEPTH_EXCEEDED)"
proof -
  have "input_at cyclic_array 0 p = Some 0" if "set p \<subseteq> {0}" for p
    using that by (induction p) (simp_all add: cyclic_array_def)
  then have "input_at cyclic_array 0 (replicate 101 0) = Some 0" by simp
  then show ?thesis by (rule marker_at_cutoff) simp
qed

lemma truncate_nest:
  "depth + n \<le> 101 \<Longrightarrow>
   truncateStringsInData view_js (nest n v) maxLength depth
     = nest n (truncateStringsInData view_js v maxLength (depth + n))"
  by (induction n arbitrary: depth) (simp_all add: within_depth)

lemma truncate_entry_at_100:
  "truncateStringsInData view_js (JObj [(k, JStr s)]) maxLength 100
     = JObj (assignable [(k, JStr MAX_DEPTH_EXCEEDED)])"
  by (simp add: within_depth depth_guard)

text \<open>
  C2. The code does not do what the statement says for an entry \<^verbatim>\<open>__proto__\<close>, which
  an object that \<^verbatim>\<open>JSON.parse\<close> returns can have. Inside 100 arrays the value of the
  entry is at level 101. The call for it returns the marker, and the assignment
  \<^verbatim>\<open>result[key] = ...\<close> drops it: the result holds an empty object and no marker. For
  an entry of any other name the marker is there.
\<close>

theorem proto_entry_loses_marker:
  "truncateStringsInData view_js (nest 100 (JObj [(str ''__proto__'', JStr (str ''x''))])) 500 0
     = nest 100 (JObj [])
   \<and> truncateStringsInData view_js (nest 100 (JObj [(str ''a'', JStr (str ''x''))])) 500 0
     = nest 100 (JObj [(str ''a'', JStr (str ''[MAX_DEPTH_EXCEEDED]''))])"
  by (simp add: truncate_nest truncate_entry_at_100 assignable_def PROTO_def
      MAX_DEPTH_EXCEEDED_def str_def)


subsection \<open>The budget of an array\<close>

lemma total_size_simps [simp]:
  "total_size [] = 0"
  "total_size (p # ps) = length (serialize p) + total_size ps"
  "total_size (ps @ qs) = total_size ps + total_size qs"
  by (simp_all add: total_size_def)

lemma calculateObjectSize_Inr:
  "calculateObjectSize p = Inr n \<longleftrightarrow> p \<noteq> JUndefined \<and> n = length (serialize p)"
  by (auto simp: calculateObjectSize_def JSON_stringify_def)

lemma length_join:
  "length (join sep xs) = sum_list (map length xs) + (length xs - 1) * length sep"
  by (induction sep xs rule: join.induct) simp_all

lemma size_of_array:
  "calculateObjectSize (JArr ps) = Inr (total_size ps + max 2 (length ps + 1))"
  by (cases ps) (simp_all add: calculateObjectSize_def JSON_stringify_def length_join
      total_size_def comp_def str_def)

lemma processArrayLoop_result:
  "processArrayLoop maxTotalSize processFunc items currentSize result = Inr out \<Longrightarrow>
   int currentSize \<le> max 0 maxTotalSize \<Longrightarrow>
   \<exists>kept. out = result @ kept
     \<and> length kept \<le> length items
     \<and> map processFunc (take (length kept) items) = map Inr kept
     \<and> JUndefined \<notin> set kept
     \<and> int (currentSize + total_size kept) \<le> max 0 maxTotalSize
     \<and> (length kept < length items \<longrightarrow>
          (\<exists>p. processFunc (items ! length kept) = Inr p \<and> p \<noteq> JUndefined
             \<and> maxTotalSize < int (currentSize + total_size kept + length (serialize p))))"
proof (induction items arbitrary: currentSize result)
  case Nil
  then show ?case by simp
next
  case (Cons item rest)
  from Cons.prems(1) obtain p where p: "processFunc item = Inr p"
    by (cases "processFunc item") simp_all
  from Cons.prems(1) p obtain n where n: "calculateObjectSize p = Inr n"
    by (cases "calculateObjectSize p") simp_all
  then have pn: "p \<noteq> JUndefined" "n = length (serialize p)"
    by (simp_all add: calculateObjectSize_Inr)
  show ?case
  proof (cases "int (currentSize + n) > maxTotalSize")
    case True
    with Cons.prems p n have "out = result" by simp
    with True Cons.prems(2) p pn show ?thesis
      by (intro exI [of _ "[]"]) simp
  next
    case False
    with Cons.prems(1) p n
    have loop: "processArrayLoop maxTotalSize processFunc rest (currentSize + n) (result @ [p]) = Inr out"
      by simp
    from False have "int (currentSize + n) \<le> max 0 maxTotalSize" by simp
    from Cons.IH [OF loop this] obtain kept where kept:
      "out = (result @ [p]) @ kept" "length kept \<le> length rest"
      "map processFunc (take (length kept) rest) = map Inr kept"
      "JUndefined \<notin> set kept"
      "int (currentSize + n + total_size kept) \<le> max 0 maxTotalSize"
      "length kept < length rest \<longrightarrow>
         (\<exists>q. processFunc (rest ! length kept) = Inr q \<and> q \<noteq> JUndefined
            \<and> maxTotalSize < int (currentSize + n + total_size kept + length (serialize q)))"
      by blast
    show ?thesis
    proof (intro exI [of _ "p # kept"] conjI)
      show "length (p # kept) < length (item # rest) \<longrightarrow>
        (\<exists>q. processFunc ((item # rest) ! length (p # kept)) = Inr q \<and> q \<noteq> JUndefined
           \<and> maxTotalSize < int (currentSize + total_size (p # kept) + length (serialize q)))"
        using kept(6) pn by (simp add: add.assoc)
    qed (use kept p pn in \<open>simp_all add: add.assoc\<close>)
  qed
qed

text \<open>
  C1, as the code has it. When \<^verbatim>\<open>processArrayWithSizeLimit\<close> returns, the items it
  kept are the transformed items of a prefix of the array, in order; the sum of their
  serialised sizes is within the budget (within 0 for a negative budget, where nothing
  is kept); and if an item was left out, the first one left out is the one whose size,
  added to that sum, went over the budget. The budget bounds the sum of the sizes of
  the items, not the size of the serialised result: that one is larger by the two
  brackets and the commas between the items.
\<close>

theorem processArrayWithSizeLimit_bound:
  "processArrayWithSizeLimit array maxTotalSize processFunc = Inr result \<Longrightarrow>
   length result \<le> length array
   \<and> map processFunc (take (length result) array) = map Inr result
   \<and> int (total_size result) \<le> max 0 maxTotalSize
   \<and> (length result < length array \<longrightarrow>
        (\<exists>p n. processFunc (array ! length result) = Inr p \<and> calculateObjectSize p = Inr n
           \<and> maxTotalSize < int (total_size result + n)))
   \<and> calculateObjectSize (JArr result)
        = Inr (total_size result + max 2 (length result + 1))"
proof -
  assume "processArrayWithSizeLimit array maxTotalSize processFunc = Inr result"
  then have "processArrayLoop maxTotalSize processFunc array 0 [] = Inr result"
    by (simp add: processArrayWithSizeLimit_def)
  from processArrayLoop_result [OF this] show ?thesis
    by (auto simp: size_of_array calculateObjectSize_Inr)
qed

text \<open>
  The function returns whenever \<^verbatim>\<open>processFunc\<close> returns a value other than
  \<^verbatim>\<open>undefined\<close> for every item.
\<close>

lemma processArrayLoop_returns:
  "\<forall>item\<in>set items. \<exists>p. processFunc item = Inr p \<and> p \<noteq> JUndefined \<Longrightarrow>
   \<exists>out. processArrayLoop maxTotalSize processFunc items currentSize result = Inr out"
proof (induction items arbitrary: currentSize result)
  case Nil
  then show ?case by simp
next
  case (Cons item rest)
  then obtain p where "processFunc item = Inr p" "p \<noteq> JUndefined" by auto
  moreover from this obtain n where "calculateObjectSize p = Inr n"
    by (auto simp: calculateObjectSize_Inr)
  ultimately show ?case using Cons by simp
qed

lemma three_strings:
  "processArrayWithSizeLimit [JStr (str ''ab''), JStr (str ''cd''), JStr (str ''ef'')] 9 Inr
     = Inr [JStr (str ''ab''), JStr (str ''cd'')]"
  by code_simp

lemma two_strings_total: "total_size [JStr (str ''ab''), JStr (str ''cd'')] = 8"
  by code_simp

lemma two_strings_size:
  "calculateObjectSize (JArr [JStr (str ''ab''), JStr (str ''cd'')]) = Inr 11"
  by code_simp

theorem processArrayWithSizeLimit_bound_witness:
  "processArrayWithSizeLimit [JStr (str ''ab''), JStr (str ''cd''), JStr (str ''ef'')] 9 Inr
     = Inr [JStr (str ''ab''), JStr (str ''cd'')]
   \<and> total_size [JStr (str ''ab''), JStr (str ''cd'')] = 8
   \<and> calculateObjectSize (JArr [JStr (str ''ab''), JStr (str ''cd'')]) = Inr 11"
proof -
  from processArrayWithSizeLimit_bound [OF three_strings]
  have "int (total_size [JStr (str ''ab''), JStr (str ''cd'')]) \<le> max 0 9"
    by blast
  with three_strings two_strings_total two_strings_size show ?thesis
    by blast
qed

text \<open>
  Five empty strings and a budget of 8: four are kept, the fifth (of size 2) stops the
  loop, and the result \<^verbatim>\<open>["","","",""]\<close> has 13 characters, which is more than the
  budget and the size of the fifth together.
\<close>

lemma five_empty_strings:
  "processArrayWithSizeLimit (replicate 5 (JStr [])) 8 Inr = Inr (replicate 4 (JStr []))"
  by code_simp

lemma four_empty_strings: "calculateObjectSize (JArr (replicate 4 (JStr []))) = Inr 13"
  by code_simp

lemma empty_string_size: "calculateObjectSize (JStr []) = Inr 2"
  by code_simp

theorem serialized_size_counterexample:
  "processArrayWithSizeLimit (replicate 5 (JStr [])) 8 Inr = Inr (replicate 4 (JStr []))
   \<and> calculateObjectSize (replicate 5 (JStr []) ! 4) = Inr 2
   \<and> calculateObjectSize (JArr (replicate 4 (JStr []))) = Inr 13
   \<and> \<not> (13 \<le> (8::int) + 2)"
  using five_empty_strings four_empty_strings empty_string_size by simp


subsection \<open>Text that is not JSON, and failures\<close>

text \<open>
  When \<^verbatim>\<open>JSON.parse\<close> raises, \<^verbatim>\<open>processJsonString\<close> returns what
  \<^verbatim>\<open>truncateStringsInData\<close> makes of the whole text taken as one string.
\<close>

lemma inner_try_fails: "parse jsonString = Inl e \<Longrightarrow> inner_try parse jsonString = Inl e"
  by (simp add: inner_try_def)

lemma processJsonString_not_json:
  "parse jsonString = Inl e \<Longrightarrow>
   processJsonString st parse jsonString maxLength
     = truncateStringsInData view_js (JStr jsonString) maxLength 0"
  by (simp add: processJsonString_def outer_try_def inner_try_fails)

text \<open>
  A value that \<^verbatim>\<open>JSON.parse\<close> returns holds no \<^verbatim>\<open>undefined\<close>, and on such a value no
  step of the outer \<^verbatim>\<open>try\<close> block raises: the block returns a string. What is left to
  bring the outer \<^verbatim>\<open>catch\<close> about is a failure of the engine itself, a string or a
  stack beyond its limits, which these definitions do not have.
\<close>

lemma truncated_string:
  "truncateStringsInData view_js (JStr s) maxLength 0
     = JStr (if int (length s) > maxLength then substring0 s maxLength @ TRUNCATED else s)"
  by (simp add: within_depth)

lemma truncated_defined:
  "v \<noteq> JUndefined \<Longrightarrow> truncateStringsInData view_js v maxLength depth \<noteq> JUndefined"
  by (cases "depth \<le> 100"; cases v) (simp_all add: within_depth depth_guard)

lemma outer_try_returns:
  assumes "parse jsonString = Inr parsed" "json_value parsed"
  shows "\<exists>result. outer_try st parse jsonString maxLength = Inr (JStr result)"
proof (cases "parsed = JNull")
  case True
  with assms(1) show ?thesis
    by (simp add: outer_try_def inner_try_def truncated_string)
next
  case False
  with assms have inner: "inner_try parse jsonString = Inr parsed"
    by (auto simp: inner_try_def)
  show ?thesis
  proof (cases parsed)
    case (JArr items)
    with assms(2) have "\<forall>item\<in>set items. item \<noteq> JUndefined"
      by (auto simp: list_all_iff)
    then have "\<forall>item\<in>set items. \<exists>p.
        (\<lambda>item. Inr (truncateStringsInData view_js item maxLength 0) :: exn + js) item = Inr p
        \<and> p \<noteq> JUndefined"
      by (simp add: truncated_defined)
    from processArrayLoop_returns [OF this, of "maxLogSize st" 0 "[]"]
    obtain processed where
      "processArrayWithSizeLimit items (maxLogSize st)
         (\<lambda>item. Inr (truncateStringsInData view_js item maxLength 0)) = Inr processed"
      by (auto simp: processArrayWithSizeLimit_def)
    with inner JArr show ?thesis by (simp add: outer_try_def)
  next
    case JUndefined
    with assms(2) show ?thesis by simp
  qed (use inner False in \<open>simp_all add: outer_try_def JSON_stringify_def truncated_defined\<close>)
qed

section \<open>Properties of the session\<close>

subsection \<open>A server with another signature\<close>

lemma validate_false_no_socket:
  assumes "fst (validateServerIdentity st fetched) = False"
  shows "setupWebSocket st fetched constructed s =
           (let (s1, a1) = clear_pending s;
                (s2, a2) = set_timeout (s1\<lparr>reconnectAfterValidation := True\<rparr>)
                             Reconnect WS_RECONNECT_DELAY
            in (s2, a1 @ map SendMessage (snd (validateServerIdentity st fetched)) @ a2))"
  using assms
  by (cases "validateServerIdentity st fetched") (simp add: setupWebSocket_def split: prod.splits)

lemma clear_pending_effect:
  "ws (fst (clear_pending s)) = None
   \<and> filter is_new_socket (snd (clear_pending s)) = []
   \<and> filter is_reconnect (snd (clear_pending s)) = []
   \<and> next_handle (fst (clear_pending s)) = next_handle s"
  by (simp add: clear_pending_def is_new_socket_def is_reconnect_def
      split: option.splits prod.splits)

lemma filter_notifications:
  "filter is_new_socket (map SendMessage ms) = []"
  "filter is_reconnect (map SendMessage ms) = []"
  by (induction ms) (simp_all add: is_new_socket_def is_reconnect_def)

text \<open>
  C7, as the code has it. For a response with a success status whose body is an object
  with a \<^verbatim>\<open>signature\<close> other than the expected one (or with none),
  \<^verbatim>\<open>validateServerIdentity\<close> returns false and sends one notification of a failed
  validation with the reason \<^verbatim>\<open>invalid_signature\<close>. The status is looked at first: for a
  response without a success status it returns false with the reason
  \<^verbatim>\<open>http_error\<close>, whatever the body. Whenever the validation returns false,
  \<^verbatim>\<open>setupWebSocket\<close> creates no socket, leaves \<^verbatim>\<open>ws\<close> empty and schedules one call of
  itself after \<^verbatim>\<open>WS_RECONNECT_DELAY\<close>.
\<close>

theorem invalid_signature_never_connects:
  "(ok response \<and> json response = Inr (JObj es)
      \<and> get_property es (str ''signature'') \<noteq> JStr (str ''mcp-browser-connector-24x7'') \<longrightarrow>
      validateServerIdentity st (Resolved response)
        = (False, [SERVER_VALIDATION_FAILED invalid_signature None None
                     (serverHost st) (serverPort st)])) \<and>
   (\<not> ok response \<longrightarrow>
      validateServerIdentity st (Resolved response)
        = (False, [SERVER_VALIDATION_FAILED http_error (Some (status response)) None
                     (serverHost st) (serverPort st)])) \<and>
   (fst (validateServerIdentity st fetched) = False \<longrightarrow>
      ws (fst (setupWebSocket st fetched constructed s)) = None
      \<and> filter is_new_socket (snd (setupWebSocket st fetched constructed s)) = []
      \<and> filter is_reconnect (snd (setupWebSocket st fetched constructed s))
          = [SetTimeout (next_handle s) Reconnect 5000]
      \<and> reconnectAfterValidation (fst (setupWebSocket st fetched constructed s)))"
proof (intro conjI impI)
  assume f: "fst (validateServerIdentity st fetched) = False"
  obtain s1 a1 where c: "clear_pending s = (s1, a1)" by (cases "clear_pending s")
  with clear_pending_effect [of s] have e:
    "ws s1 = None" "filter is_new_socket a1 = []" "filter is_reconnect a1 = []"
    "next_handle s1 = next_handle s" by simp_all
  from validate_false_no_socket [OF f, of constructed s] c
  have r: "setupWebSocket st fetched constructed s =
    (s1\<lparr>reconnectAfterValidation := True, wsReconnectTimeout := Some (next_handle s1),
        next_handle := next_handle s1 + 1\<rparr>,
     a1 @ map SendMessage (snd (validateServerIdentity st fetched))
        @ [SetTimeout (next_handle s1) Reconnect WS_RECONNECT_DELAY])"
    by (simp add: set_timeout_def)
  show "ws (fst (setupWebSocket st fetched constructed s)) = None"
    using r e by simp
  show "filter is_new_socket (snd (setupWebSocket st fetched constructed s)) = []"
    using r e by (simp add: filter_notifications is_new_socket_def)
  show "filter is_reconnect (snd (setupWebSocket st fetched constructed s))
          = [SetTimeout (next_handle s) Reconnect 5000]"
    using r e by (simp add: filter_notifications is_reconnect_def WS_RECONNECT_DELAY_def)
  show "reconnectAfterValidation (fst (setupWebSocket st fetched constructed s))"
    using r by simp
qed (simp_all add: validateServerIdentity_def EXPECTED_SIGNATURE_def)


theorem invalid_signature_never_connects_witness:
  "validateServerIdentity default_settings (Resolved wrong_signature)
     = (False, [SERVER_VALIDATION_FAILED invalid_signature None None (str ''localhost'') 3025])
   \<and> validateServerIdentity default_settings (Resolved server_error)
     = (False, [SERVER_VALIDATION_FAILED http_error (Some 500) None (str ''localhost'') 3025])
   \<and> ws (fst (setupWebSocket default_settings (Resolved wrong_signature) None connected_session))
     = None
   \<and> filter is_reconnect
        (snd (setupWebSocket default_settings (Resolved wrong_signature) None connected_session))
     = [SetTimeout 2 Reconnect 5000]"
proof -
  have a: "ok wrong_signature"
    "json wrong_signature = Inr (JObj wrong_identity)"
    "get_property wrong_identity (str ''signature'')
       \<noteq> JStr (str ''mcp-browser-connector-24x7'')"
    by (simp_all add: wrong_signature_def wrong_identity_def str_def)
  have b: "\<not> ok server_error" "status server_error = 500"
    by (simp_all add: server_error_def)
  have c: "serverHost default_settings = str ''localhost''" "serverPort default_settings = 3025"
    "next_handle connected_session = 2"
    by (simp_all add: default_settings_def connected_session_def)
  from invalid_signature_never_connects
         [of wrong_signature wrong_identity
             default_settings "Resolved wrong_signature" None connected_session]
       invalid_signature_never_connects
         [of server_error "[]" default_settings "Resolved server_error" None connected_session]
       a b c
  show ?thesis by simp
qed

lemma server_error_reason:
  "validateServerIdentity default_settings (Resolved server_error)
     = (False, [SERVER_VALIDATION_FAILED http_error (Some 500) None (str ''localhost'') 3025])"
  by (simp add: validateServerIdentity_def server_error_def default_settings_def)

text \<open>
  A response with the status 500 and a body with another signature: the reason is not
  \<^verbatim>\<open>invalid_signature\<close>.
\<close>

theorem http_error_counterexample:
  "json server_error = Inr (JObj [(str ''signature'', JStr (str ''someone-else''))])
   \<and> JStr (str ''someone-else'') \<noteq> JStr (str ''mcp-browser-connector-24x7'')
   \<and> \<not> (snd (validateServerIdentity default_settings (Resolved server_error))
          = [SERVER_VALIDATION_FAILED invalid_signature None None (str ''localhost'') 3025])"
  using server_error_reason by (simp add: server_error_def str_def)


subsection \<open>Reconnecting after a close\<close>

text \<open>
  C8, as the code has it. On a close with the code 1000 and \<^verbatim>\<open>reconnectAfterValidation\<close>
  not set, the handler schedules nothing. On a close with a code other than 1000 and
  1001, and \<^verbatim>\<open>intentionalClosure\<close> not set, it schedules exactly one call of
  \<^verbatim>\<open>setupWebSocket\<close>, after \<^verbatim>\<open>WS_RECONNECT_DELAY\<close>.
\<close>

theorem ws_onclose_reconnect:
  "(code = 1000 \<and> \<not> reconnectAfterValidation s \<longrightarrow>
      filter is_reconnect (snd (ws_onclose code s)) = []
      \<and> wsReconnectTimeout (fst (ws_onclose code s)) = wsReconnectTimeout s) \<and>
   (code \<noteq> 1000 \<and> code \<noteq> 1001 \<and> \<not> intentionalClosure s \<longrightarrow>
      filter is_reconnect (snd (ws_onclose code s)) = [SetTimeout (next_handle s) Reconnect 5000]
      \<and> wsReconnectTimeout (fst (ws_onclose code s)) = Some (next_handle s))"
  by (simp add: ws_onclose_def set_timeout_def is_reconnect_def WS_RECONNECT_DELAY_def
      split: option.splits)

theorem ws_onclose_reconnect_witness:
  "\<not> reconnectAfterValidation connected_session \<and> \<not> intentionalClosure connected_session
   \<and> filter is_reconnect (snd (ws_onclose 1000 connected_session)) = []
   \<and> (1006::int) \<noteq> 1000 \<and> (1006::int) \<noteq> 1001
   \<and> filter is_reconnect (snd (ws_onclose 1006 connected_session))
       = [SetTimeout 2 Reconnect 5000]"
proof -
  have a: "\<not> reconnectAfterValidation connected_session"
    "\<not> intentionalClosure connected_session" "next_handle connected_session = 2"
    by (simp_all add: connected_session_def)
  from ws_onclose_reconnect [of 1000 connected_session]
       ws_onclose_reconnect [of 1006 connected_session] a
  show ?thesis by simp
qed

text \<open>With \<^verbatim>\<open>intentionalClosure\<close> set, a close with the code 1006 schedules nothing.\<close>

theorem intentional_closure_counterexample:
  "(1006::int) \<noteq> 1000 \<and> (1006::int) \<noteq> 1001
   \<and> filter is_reconnect
        (snd (ws_onclose 1006 (connected_session\<lparr>intentionalClosure := True\<rparr>))) = []"
  by (simp add: ws_onclose_def connected_session_def is_reconnect_def)


subsection \<open>Answering \<^verbatim>\<open>get-cookies\<close>\<close>

lemma ws_send_open:
  "ws s = Some sock \<Longrightarrow> readyState sock = OPEN \<Longrightarrow> ws_send s frame = Inr [frame]"
  by (simp add: ws_send_def)

text \<open>
  The filter of the cookies converts the name of a cookie when the mode is
  \<^verbatim>\<open>hide-sensitive\<close>, and only then. The names that the script makes are strings, whose
  conversion does not raise.
\<close>

lemma collect_returns:
  "\<forall>x\<in>set xs. \<exists>v. f x = Inr v \<Longrightarrow> \<exists>vs. collect (map f xs) = Inr vs"
proof (induction xs)
  case Nil
  then show ?case by simp
next
  case (Cons x xs)
  then obtain v vs where "f x = Inr v" "collect (map f xs) = Inr vs" by auto
  then show ?case by simp
qed

lemma filter_cookie_object: "\<exists>v. filterSensitiveCookie st (cookie_object c) = Inr v"
  by (simp add: filterSensitiveCookie_def cookie_object_def must_redact_cookie_def str_def)

lemma filter_script_result: "\<exists>ys. filterSensitiveCookies st (script_result cs) = Inr (JArr ys)"
proof -
  have "\<exists>vs. collect (map (filterSensitiveCookie st) (map cookie_object cs)) = Inr vs"
    by (rule collect_returns) (simp add: filter_cookie_object)
  then show ?thesis
    by (auto simp: filterSensitiveCookies_def script_result_def)
qed

lemma filter_cookie_other_modes:
  "sensitiveDataMode st \<noteq> str ''hide-sensitive'' \<Longrightarrow> \<exists>v. filterSensitiveCookie st cookie = Inr v"
  by (cases cookie) (simp_all add: filterSensitiveCookie_def must_redact_cookie_def)

lemma filter_other_modes:
  assumes "sensitiveDataMode st \<noteq> str ''hide-sensitive''"
  shows "\<exists>ys. filterSensitiveCookies st cookies = Inr (JArr ys)"
proof (cases cookies)
  case (JArr xs)
  have "\<exists>vs. collect (map (filterSensitiveCookie st) xs) = Inr vs"
    by (rule collect_returns) (simp add: filter_cookie_other_modes assms)
  with JArr show ?thesis by (auto simp: filterSensitiveCookies_def)
qed (simp_all add: filterSensitiveCookies_def)

text \<open>
  C9, as the code has it. A message of the type \<^verbatim>\<open>get-cookies\<close> starts one reading of
  the cookies. When the reading gives an exception, no result, or the array of names and
  values that the script builds (or anything at all while the mode is not
  \<^verbatim>\<open>hide-sensitive\<close>), its callback makes one call of \<^verbatim>\<open>ws.send\<close>, with a frame that
  carries the \<^verbatim>\<open>requestId\<close> of the message and has the type \<^verbatim>\<open>cookies-error\<close> when
  there is an exception or no result, and \<^verbatim>\<open>cookies-data\<close> otherwise. When \<^verbatim>\<open>ws\<close>
  holds an open socket at that moment, exactly this one frame goes out.
\<close>

theorem get_cookies_one_response:
  "(parse data = Inr (JObj es) \<and> get_property es (str ''type'') = JStr (str ''get-cookies'') \<longrightarrow>
      ws_onmessage parse data = Some (EvalCookies (get_property es (str ''requestId'')))) \<and>
   (truthy isException \<or> \<not> truthy result
      \<or> sensitiveDataMode st \<noteq> str ''hide-sensitive'' \<or> result = script_result cs \<longrightarrow>
      (\<exists>frame. cookies_callback st s requestId result isException
                  = ws_send s (serialize (JObj frame))
         \<and> get_property frame (str ''requestId'') = requestId
         \<and> get_property frame (str ''type'')
             = (if truthy isException \<or> \<not> truthy result then JStr (str ''cookies-error'')
                else JStr (str ''cookies-data''))
         \<and> (ws s = Some sock \<and> readyState sock = OPEN \<longrightarrow>
              cookies_callback st s requestId result isException
                = Inr [serialize (JObj frame)])))"
proof (intro conjI impI)
  assume "parse data = Inr (JObj es)
          \<and> get_property es (str ''type'') = JStr (str ''get-cookies'')"
  then show "ws_onmessage parse data = Some (EvalCookies (get_property es (str ''requestId'')))"
    by (simp add: ws_onmessage_def str_def)
next
  assume outcome: "truthy isException \<or> \<not> truthy result
                   \<or> sensitiveDataMode st \<noteq> str ''hide-sensitive'' \<or> result = script_result cs"
  show "\<exists>frame. cookies_callback st s requestId result isException
                  = ws_send s (serialize (JObj frame))
         \<and> get_property frame (str ''requestId'') = requestId
         \<and> get_property frame (str ''type'')
             = (if truthy isException \<or> \<not> truthy result then JStr (str ''cookies-error'')
                else JStr (str ''cookies-data''))
         \<and> (ws s = Some sock \<and> readyState sock = OPEN \<longrightarrow>
              cookies_callback st s requestId result isException
                = Inr [serialize (JObj frame)])"
  proof (cases "truthy isException \<or> \<not> truthy result")
    case True
    then show ?thesis
      unfolding cookies_callback_def cookies_error_frame_def
      by (intro exI [of _ "[(str ''type'', JStr (str ''cookies-error'')),
            (str ''error'',
             if truthy isException then isException else JStr (str ''Failed to get cookies'')),
            (str ''requestId'', requestId)]"]) (simp add: ws_send_open str_def)
  next
    case False
    define array where "array = (case result of JArr xs \<Rightarrow> result | _ \<Rightarrow> JArr [])"
    from False outcome
    have "sensitiveDataMode st \<noteq> str ''hide-sensitive'' \<or> array = script_result cs"
      by (auto simp: array_def script_result_def)
    then obtain ys where ys: "filterSensitiveCookies st array = Inr (JArr ys)"
      using filter_other_modes filter_script_result by metis
    define cookies where
      "cookies = (if sensitiveDataMode st \<noteq> str ''show-all'' then JArr ys else array)"
    have "cookies_callback st s requestId result isException
            = ws_send s (serialize (cookies_data_frame cookies requestId))"
      using False ys
      by (simp add: cookies_callback_def cookies_def array_def [symmetric])
    with False show ?thesis
      unfolding cookies_data_frame_def
      by (intro exI [of _ "[(str ''type'', JStr (str ''cookies-data'')), (str ''cookies'', cookies),
            (str ''requestId'', requestId)]"]) (simp add: ws_send_open str_def)
  qed
qed

theorem get_cookies_one_response_witness:
  "command_parse (str ''{...}'') = Inr (JObj get_cookies_command)
   \<and> get_property get_cookies_command (str ''type'') = JStr (str ''get-cookies'')
   \<and> ws_onmessage command_parse (str ''{...}'') = Some (EvalCookies (JStr (str ''r1'')))
   \<and> ws connected_session
       = Some \<lparr>sock_host = str ''localhost'', sock_port = 3025, readyState = OPEN\<rparr>
   \<and> (\<exists>frame. cookies_callback default_settings connected_session (JStr (str ''r1''))
                 two_cookies JUndefined = Inr [serialize (JObj frame)]
         \<and> get_property frame (str ''requestId'') = JStr (str ''r1'')
         \<and> get_property frame (str ''type'') = JStr (str ''cookies-data''))"
proof -
  have a: "command_parse (str ''{...}'') = Inr (JObj get_cookies_command)"
    "get_property get_cookies_command (str ''type'') = JStr (str ''get-cookies'')"
    "get_property get_cookies_command (str ''requestId'') = JStr (str ''r1'')"
    by (simp_all add: command_parse_def get_cookies_command_def str_def)
  have b: "ws connected_session
             = Some \<lparr>sock_host = str ''localhost'', sock_port = 3025, readyState = OPEN\<rparr>"
    by (simp add: connected_session_def)
  have c: "truthy two_cookies" "\<not> truthy JUndefined"
    "two_cookies = script_result [(str ''theme'', str ''dark''), (str ''auth_token'', str ''abc'')]"
    by (simp_all add: two_cookies_def script_result_def)
  from get_cookies_one_response
         [where parse = command_parse and data = "str ''{...}''"
            and es = get_cookies_command
            and s = connected_session
            and sock = "\<lparr>sock_host = str ''localhost'', sock_port = 3025, readyState = OPEN\<rparr>"
            and st = default_settings and requestId = "JStr (str ''r1'')"
            and result = two_cookies and isException = JUndefined
            and cs = "[(str ''theme'', str ''dark''), (str ''auth_token'', str ''abc'')]"]
       a b c
  show ?thesis by (simp del: serialize.simps) blast
qed

text \<open>
  Between the message and the callback \<^verbatim>\<open>setupWebSocket\<close> may have begun: it sets
  \<^verbatim>\<open>ws\<close> to \<^verbatim>\<open>null\<close> and waits for the validation. A callback that runs then raises
  a \<^verbatim>\<open>TypeError\<close> and no frame goes out.
\<close>

theorem null_socket_counterexample:
  "ws (fst (clear_pending connected_session)) = None
   \<and> cookies_callback default_settings (fst (clear_pending connected_session))
        (JStr (str ''r1'')) two_cookies JUndefined = Inl TypeError"
  by (simp add: clear_pending_def connected_session_def cookies_callback_def ws_send_def
      two_cookies_def script_result_def default_settings_def cookie_object_def
      filterSensitiveCookies_def filterSensitiveCookie_def must_redact_cookie_def str_def)

text \<open>
  Under \<^verbatim>\<open>hide-sensitive\<close>, a cookie whose name is an object with an entry
  \<^verbatim>\<open>toString\<close> makes the conversion raise inside the callback, with an open socket and
  before any call of \<^verbatim>\<open>ws.send\<close>.
\<close>

lemma odd_cookie_raises:
  "cookies_callback (default_settings\<lparr>sensitiveDataMode := str ''hide-sensitive''\<rparr>)
     connected_session (JStr (str ''r1'')) odd_cookie JUndefined = Inl TypeError"
  by (simp add: cookies_callback_def odd_cookie_def filterSensitiveCookies_def
      filterSensitiveCookie_def must_redact_cookie_def has_own_property_def str_def)


end
